theory Spec2Isabelle
  imports Complex_Main
begin

section \<open>The DeepSeek to MLX conversion script\<close>

text \<open>
  A shallow embedding of \<^verbatim>\<open>Scripts/convert_deepseek_model.py\<close>. The script is glue
  around an external machine-learning library, the file system, the clock and a random
  number generator. Everything the script itself computes is a HOL function below; the
  outside is an explicit environment (\<open>env\<close>) of answers and an explicit state
  (\<open>world\<close>) that is passed through and returned updated.

  Conventions.
  \<^item> An exception is a value of type \<open>exn\<close>. The script only ever writes
    \<^verbatim>\<open>except Exception\<close> and \<^verbatim>\<open>except ImportError\<close>, so \<open>exn\<close> stands for the instances of
    Python's \<^verbatim>\<open>Exception\<close>. Signals outside that class (a keyboard interrupt inside a
    library call) are not part of the model.
  \<^item> \<^verbatim>\<open>print\<close> appends a \<open>line\<close> to the console. Each \<^verbatim>\<open>print\<close> statement of the source is
    one constructor of \<open>line\<close>, carrying the values the f-string interpolates (the
    decorative symbols of the messages are left out).
  \<^item> A call of the external library is recorded in \<open>calls\<close> with its arguments, and
    answered by the environment.
  \<^item> The loop that looks for an unused output path has no bound in the source. It is a
    \<^theory_text>\<open>partial_function\<close> in the option monad: \<open>None\<close> means that it never returns.
\<close>

subsection \<open>The static catalogue\<close>

record model_config =
  hf_path :: string
  description :: string

text \<open>The dictionary \<^verbatim>\<open>DEEPSEEK_MODELS\<close>, in source order.\<close>

definition DEEPSEEK_MODELS :: "(string \<times> model_config) list" where
  "DEEPSEEK_MODELS =
     [(''deepseek-r1-8b'',
       \<lparr>hf_path = ''deepseek-ai/DeepSeek-R1-Distill-Llama-8B'',
        description = ''DeepSeek R1 Distilled Llama 8B - optimized reasoning model''\<rparr>),
      (''deepseek-r1-qwen-8b'',
       \<lparr>hf_path = ''deepseek-ai/DeepSeek-R1-Distill-Qwen2.5-7B'',
        description = ''DeepSeek R1 Distilled Qwen 7B - lightweight reasoning model''\<rparr>)]"

text \<open>\<^verbatim>\<open>list(DEEPSEEK_MODELS.keys())\<close> and \<^verbatim>\<open>DEEPSEEK_MODELS[k]\<close>.\<close>

definition model_keys :: "string list" where
  "model_keys = map fst DEEPSEEK_MODELS"

definition lookup_model :: "string \<Rightarrow> model_config option" where
  "lookup_model k = map_of DEEPSEEK_MODELS k"

subsection \<open>Numbers and time stamps as text\<close>

text \<open>\<^verbatim>\<open>str(n)\<close> for a natural number: its decimal digits.\<close>

fun digits :: "nat \<Rightarrow> string" where
  "digits n =
     (if n < 10 then [''0123456789'' ! n]
      else digits (n div 10) @ [''0123456789'' ! (n mod 10)])"

text \<open>Zero padding on the left up to a width, as the \<^verbatim>\<open>%m\<close>, \<^verbatim>\<open>%d\<close>, ... directives do.\<close>

definition zfill :: "nat \<Rightarrow> string \<Rightarrow> string" where
  "zfill width s = replicate (width - length s) (CHR ''0'') @ s"

record datetime =
  year :: nat
  month :: nat
  day :: nat
  hour :: nat
  minute :: nat
  second :: nat
  microsecond :: nat

text \<open>\<^verbatim>\<open>strftime('%Y%m%d_%H%M%S')\<close>.\<close>

definition strftime :: "datetime \<Rightarrow> string" where
  "strftime t =
     zfill 4 (digits (year t)) @ zfill 2 (digits (month t)) @ zfill 2 (digits (day t)) @ ''_'' @
     zfill 2 (digits (hour t)) @ zfill 2 (digits (minute t)) @ zfill 2 (digits (second t))"

text \<open>\<^verbatim>\<open>isoformat()\<close>: the fraction is printed only when the microseconds are not zero.\<close>

definition isoformat :: "datetime \<Rightarrow> string" where
  "isoformat t =
     zfill 4 (digits (year t)) @ ''-'' @ zfill 2 (digits (month t)) @ ''-'' @
     zfill 2 (digits (day t)) @ ''T'' @ zfill 2 (digits (hour t)) @ '':'' @
     zfill 2 (digits (minute t)) @ '':'' @ zfill 2 (digits (second t)) @
     (if microsecond t = 0 then [] else ''.'' @ zfill 6 (digits (microsecond t)))"

text \<open>
  \<^verbatim>\<open>random.randint(a, b)\<close> returns some integer between \<open>a\<close> and \<open>b\<close>, both included.
  The generator's raw draw is the environment's; every value of the range is the image
  of some draw.
\<close>

definition randint :: "nat \<Rightarrow> nat \<Rightarrow> nat \<Rightarrow> nat" where
  "randint a b raw = a + raw mod (b - a + 1)"

text \<open>The f-string of lines 77 and 83, from one clock reading and one raw draw.\<close>

definition temp_suffix :: "datetime \<Rightarrow> nat \<Rightarrow> string" where
  "temp_suffix t raw = strftime t @ ''_'' @ digits (randint 1000 9999 raw)"

subsection \<open>Paths\<close>

text \<open>
  The part of \<^verbatim>\<open>pathlib\<close> (POSIX flavour) that the script uses. A path is its root
  (empty, one slash or two slashes) and the list of its components.
\<close>

record pure_path =
  path_root :: string
  tail :: "string list"

text \<open>\<^verbatim>\<open>s.split('/')\<close>.\<close>

fun split_sep :: "string \<Rightarrow> string list" where
  "split_sep [] = [[]]"
| "split_sep (c # cs) =
     (if c = CHR ''/'' then [] # split_sep cs
      else (c # hd (split_sep cs)) # tl (split_sep cs))"

text \<open>\<^verbatim>\<open>'/'.join(parts)\<close>.\<close>

fun join_sep :: "string list \<Rightarrow> string" where
  "join_sep [] = []"
| "join_sep [x] = x"
| "join_sep (x # y # ys) = x @ ''/'' @ join_sep (y # ys)"

text \<open>
  \<^verbatim>\<open>posixpath.splitroot\<close>: no leading slash, exactly two leading slashes, or one (three
  and more count as one).
\<close>

definition splitroot :: "string \<Rightarrow> string \<times> string" where
  "splitroot p =
     (if take 1 p \<noteq> ''/'' then ([], p)
      else if take 1 (drop 1 p) \<noteq> ''/'' \<or> take 1 (drop 2 p) = ''/'' then (''/'', drop 1 p)
      else (''//'', drop 2 p))"

text \<open>Parsing drops empty components and single dots; \<^verbatim>\<open>..\<close> is kept.\<close>

definition proper :: "string \<Rightarrow> bool" where
  "proper x = (x \<noteq> [] \<and> x \<noteq> ''.'')"

definition Path :: "string \<Rightarrow> pure_path" where
  "Path s = \<lparr>path_root = fst (splitroot s), tail = filter proper (split_sep (snd (splitroot s)))\<rparr>"

text \<open>\<^verbatim>\<open>str(p)\<close>, which is also what \<^verbatim>\<open>open\<close> and \<^verbatim>\<open>os.stat\<close> receive.\<close>

definition path_str :: "pure_path \<Rightarrow> string" where
  "path_str p = (if path_root p = [] \<and> tail p = [] then ''.'' else path_root p @ join_sep (tail p))"

text \<open>\<^verbatim>\<open>p.name\<close>, \<^verbatim>\<open>p.parent\<close> and \<^verbatim>\<open>p / key\<close>.\<close>

definition name :: "pure_path \<Rightarrow> string" where
  "name p = (if tail p = [] then [] else last (tail p))"

definition parent :: "pure_path \<Rightarrow> pure_path" where
  "parent p = (if tail p = [] then p else p\<lparr>tail := butlast (tail p)\<rparr>)"

definition truediv :: "pure_path \<Rightarrow> string \<Rightarrow> pure_path" where
  "truediv p key =
     (if path_root (Path key) \<noteq> [] then Path key
      else \<lparr>path_root = path_root p, tail = tail p @ tail (Path key)\<rparr>)"

text \<open>Line 79 and line 84: the sibling of the base path named after it and the suffix.\<close>

definition candidate :: "pure_path \<Rightarrow> string \<Rightarrow> pure_path" where
  "candidate base_output_path sfx =
     truediv (parent base_output_path) (name base_output_path @ ''_'' @ sfx)"

subsection \<open>Exceptions, files, console lines and external calls\<close>

datatype exn = ImportError string | KeyError string | Raised string

datatype json =
  JString string
| JInt int
| JArray "json list"
| JObject "(string \<times> json) list"

text \<open>Field access on a JSON object.\<close>

fun json_get :: "json \<Rightarrow> string \<Rightarrow> json option" where
  "json_get (JObject kvs) k = map_of kvs k"
| "json_get _ k = None"

text \<open>
  What a path string resolves to. A file written by \<^verbatim>\<open>json.dump\<close> is kept as the JSON
  document it holds; files of the external library are opaque.
\<close>

datatype node = Directory | Blob string | JsonFile json

type_synonym filesystem = "string \<Rightarrow> node option"

datatype ext_call =
  Convert (src: string) (mlx_path: string) (quantize: bool)
    (q_bits: "nat option") (q_group_size: "nat option")
| Load string
| Generate (model_dir: string) (prompt: string) (max_tokens: nat) (temp: rat)

datatype line =
  SettingUp
| MlxImported
| MlxLmAvailable
| MlxNotInstalled exn
| InstallHint
| AvailableMemory nat
| LowMemoryWarning
| MemoryCheckFailed exn
| UnknownModel string
| AvailableModels "string list"
| Converting string
| Source string
| Output string
| Quantization string
| ActualOutput string
| StartingConversion
| ConversionCompleted
| TestingModel
| ConversionFailed exn
| LoadingForTest
| GeneratingResponse
| TestOutput
| Dashes
| Response string
| TestSuccessful
| TestFailed exn
| ModelInfoSaved string
| ApplyingIos
| IosApplied
| IosFailed exn
| Banner
| Equals
| CompletedSuccessfully
| ReadyForIos string
| NextSteps
| NextStep nat
| FailedBanner
| InvalidChoice string string "string list"
| HelpText
| Traceback exn

subsection \<open>State and environment\<close>

record world =
  fs :: filesystem
  console :: "line list"
  calls :: "ext_call list"
  clock_reads :: nat
  rng_reads :: nat

text \<open>
  The environment answers what the script asks of the outside:
  \<^item> whether the imports of lines 12 to 15 succeed;
  \<^item> the \<open>k\<close>-th reading of \<^verbatim>\<open>datetime.now()\<close> and the \<open>k\<close>-th raw random draw;
  \<^item> \<^verbatim>\<open>mx.get_active_memory()\<close>, in bytes, or the exception it raises;
  \<^item> \<^verbatim>\<open>convert\<close>: whether it raises, and the file system it leaves behind either way;
  \<^item> \<^verbatim>\<open>load\<close> and \<^verbatim>\<open>generate\<close>: whether they raise; they read the file system only;
  \<^item> \<^verbatim>\<open>open(path, 'w')\<close> with \<^verbatim>\<open>json.dump\<close>: \<open>None\<close> when the document is written, or the
    exception raised and the file system left behind.
\<close>

record env =
  has_mlx :: bool
  has_mlx_lm :: bool
  has_numpy :: bool
  now :: "nat \<Rightarrow> datetime"
  random_raw :: "nat \<Rightarrow> nat"
  get_active_memory :: "exn + nat"
  ext_convert :: "ext_call \<Rightarrow> filesystem \<Rightarrow> exn option \<times> filesystem"
  ext_load :: "string \<Rightarrow> filesystem \<Rightarrow> exn option"
  ext_generate :: "ext_call \<Rightarrow> filesystem \<Rightarrow> exn + string"
  ext_write :: "string \<Rightarrow> json \<Rightarrow> filesystem \<Rightarrow> (exn \<times> filesystem) option"

definition emit :: "line \<Rightarrow> world \<Rightarrow> world" where
  "emit l w = w\<lparr>console := console w @ [l]\<rparr>"

definition emits :: "line list \<Rightarrow> world \<Rightarrow> world" where
  "emits ls w = w\<lparr>console := console w @ ls\<rparr>"

definition record_call :: "ext_call \<Rightarrow> world \<Rightarrow> world" where
  "record_call c w = w\<lparr>calls := calls w @ [c]\<rparr>"

text \<open>\<^verbatim>\<open>p.exists()\<close>: the path string resolves.\<close>

definition path_exists :: "world \<Rightarrow> pure_path \<Rightarrow> bool" where
  "path_exists w p = (fs w (path_str p) \<noteq> None)"

subsection \<open>The command line\<close>

text \<open>
  The command line after tokenisation: the options given, from left to right, each with
  its value. \<^verbatim>\<open>argparse\<close> checks a value against the option's \<^verbatim>\<open>choices\<close> when it consumes
  it, and the first value that is not among them ends the process with status 2 and a
  message that lists the choices. An option given twice keeps its last value. Besides the
  four options that \<^verbatim>\<open>main\<close> declares there is the help option (\<^verbatim>\<open>-h\<close>, \<^verbatim>\<open>--help\<close>) that
  \<^verbatim>\<open>ArgumentParser\<close> adds by default: when it is consumed, the help text is printed and the
  process ends with status 0. The result of parsing is the arguments, or the status and
  the message with which \<^verbatim>\<open>argparse\<close> ends the process. Command lines that do not tokenise
  into these options are not part of the model.
\<close>

datatype cli_arg =
  ModelArg string | OutputArg string | QuantizationArg string | OptimizeIosArg | HelpArg

record args =
  args_model :: string
  args_output :: string
  args_quantization :: string
  args_optimize_ios :: bool

definition default_args :: args where
  "default_args =
     \<lparr>args_model = ''deepseek-r1-8b'', args_output = ''./models/deepseek-r1-8b-mlx'',
      args_quantization = ''q4'', args_optimize_ios = False\<rparr>"

definition quantization_choices :: "string list" where
  "quantization_choices = [''q4'', ''q8'', ''none'']"

fun parse_from :: "args \<Rightarrow> cli_arg list \<Rightarrow> (nat \<times> line) + args" where
  "parse_from a [] = Inr a"
| "parse_from a (ModelArg m # rest) =
     (if m \<in> set model_keys then parse_from (a\<lparr>args_model := m\<rparr>) rest
      else Inl (2, InvalidChoice ''--model'' m model_keys))"
| "parse_from a (OutputArg d # rest) = parse_from (a\<lparr>args_output := d\<rparr>) rest"
| "parse_from a (QuantizationArg q # rest) =
     (if q \<in> set quantization_choices then parse_from (a\<lparr>args_quantization := q\<rparr>) rest
      else Inl (2, InvalidChoice ''--quantization'' q quantization_choices))"
| "parse_from a (OptimizeIosArg # rest) = parse_from (a\<lparr>args_optimize_ios := True\<rparr>) rest"
| "parse_from a (HelpArg # rest) = Inl (0, HelpText)"

definition parse_args :: "cli_arg list \<Rightarrow> (nat \<times> line) + args" where
  "parse_args argv = parse_from default_args argv"

subsection \<open>Environment check\<close>

text \<open>
  \<^verbatim>\<open>setup_environment\<close>. The first component of the result is the status of
  \<^verbatim>\<open>sys.exit\<close> when the function ends the process. The memory is compared in bytes:
  \<^verbatim>\<open>bytes / 1024**3 < 8\<close>.
\<close>

definition setup_environment :: "env \<Rightarrow> world \<Rightarrow> nat option \<times> world" where
  "setup_environment E w =
     (let w1 = emit SettingUp w in
      if \<not> has_mlx E then
        (Some 1, emits [MlxNotInstalled (ImportError ''mlx''), InstallHint] w1)
      else if \<not> has_mlx_lm E then
        (Some 1, emits [MlxNotInstalled (ImportError ''mlx_lm''), InstallHint] w1)
      else
        (let w2 = emits [MlxImported, MlxLmAvailable] w1 in
         (None,
          case get_active_memory E of
            Inl e \<Rightarrow> emit (MemoryCheckFailed e) w2
          | Inr bytes \<Rightarrow>
              (let w3 = emit (AvailableMemory bytes) w2 in
               if bytes < 8 * 1024 ^ 3 then emit LowMemoryWarning w3 else w3))))"

subsection \<open>Output path allocation\<close>

text \<open>One evaluation of the f-string: the clock is read, then the generator.\<close>

definition next_suffix :: "(nat \<Rightarrow> datetime) \<Rightarrow> (nat \<Rightarrow> nat) \<Rightarrow> world \<Rightarrow> string \<times> world" where
  "next_suffix clock rng w =
     (temp_suffix (clock (clock_reads w)) (rng (rng_reads w)),
      w\<lparr>clock_reads := Suc (clock_reads w), rng_reads := Suc (rng_reads w)\<rparr>)"

text \<open>The loop of lines 82 to 84, entered with the first candidate.\<close>

partial_function (option) retry_until_unused ::
  "(nat \<Rightarrow> datetime) \<Rightarrow> (nat \<Rightarrow> nat) \<Rightarrow> pure_path \<Rightarrow> world \<Rightarrow> pure_path \<Rightarrow> (pure_path \<times> world) option"
where
  "retry_until_unused clock rng base_output_path w output_path =
     (if path_exists w output_path then
        retry_until_unused clock rng base_output_path
          (snd (next_suffix clock rng w))
          (candidate base_output_path (fst (next_suffix clock rng w)))
      else Some (output_path, w))"

text \<open>Lines 77 to 84.\<close>

definition allocate_output_path ::
  "(nat \<Rightarrow> datetime) \<Rightarrow> (nat \<Rightarrow> nat) \<Rightarrow> string \<Rightarrow> world \<Rightarrow> (pure_path \<times> world) option"
where
  "allocate_output_path clock rng output_dir w =
     retry_until_unused clock rng (Path output_dir)
       (snd (next_suffix clock rng w))
       (candidate (Path output_dir) (fst (next_suffix clock rng w)))"

subsection \<open>The external converter\<close>

text \<open>
  The three calls of lines 92 to 116. A keyword that the source does not pass is \<open>None\<close>.
\<close>

definition convert_call :: "string \<Rightarrow> string \<Rightarrow> string \<Rightarrow> ext_call" where
  "convert_call hf out q =
     (if q = ''q4'' then Convert hf out True (Some 4) (Some 64)
      else if q = ''q8'' then Convert hf out True (Some 8) (Some 64)
      else Convert hf out False None None)"

definition run_convert :: "env \<Rightarrow> ext_call \<Rightarrow> world \<Rightarrow> exn option \<times> world" where
  "run_convert E c w =
     (fst (ext_convert E c (fs w)),
      (record_call c w)\<lparr>fs := snd (ext_convert E c (fs w))\<rparr>)"

subsection \<open>Smoke test\<close>

definition test_prompt :: string where
  "test_prompt =
     ''\<newline>        Analyze this content and provide structured information:\<newline>'' @
     ''        \<newline>'' @
     ''        \"Just discovered an amazing coffee shop downtown. Great atmosphere, excellent wifi, perfect for working. The barista recommended their signature blend - definitely coming back!\"\<newline>'' @
     ''        \<newline>'' @
     ''        Provide:\<newline>'' @
     ''        - Category: \<newline>'' @
     ''        - Tags: \<newline>'' @
     ''        - Sentiment:\<newline>'' @
     ''        ''"

text \<open>\<^verbatim>\<open>test_model\<close>: it has no result and lets no exception out.\<close>

definition test_model :: "env \<Rightarrow> string \<Rightarrow> world \<Rightarrow> world" where
  "test_model E model_path w =
     (let w1 = record_call (Load model_path) (emit LoadingForTest w) in
      case ext_load E model_path (fs w1) of
        Some e \<Rightarrow> emit (TestFailed e) w1
      | None \<Rightarrow>
          (let g = Generate model_path test_prompt 200 (3 / 10);
               w2 = record_call g (emit GeneratingResponse w1) in
           case ext_generate E g (fs w2) of
             Inl e \<Rightarrow> emit (TestFailed e) w2
           | Inr response \<Rightarrow>
               emits [TestOutput, Dashes, Response response, Dashes, TestSuccessful] w2))"

subsection \<open>Manifest\<close>

text \<open>The dictionary \<^verbatim>\<open>info\<close> of \<^verbatim>\<open>generate_model_info\<close>.\<close>

definition model_info :: "string \<Rightarrow> string \<Rightarrow> string \<Rightarrow> datetime \<Rightarrow> string \<Rightarrow> json" where
  "model_info model_path model_name q converted_at descr =
     JObject
       [(''model_name'', JString model_name),
        (''model_path'', JString model_path),
        (''quantization'', JString q),
        (''framework'', JString ''MLX''),
        (''target_platform'', JString ''iOS''),
        (''converted_at'', JString (isoformat converted_at)),
        (''description'', JString descr),
        (''usage'',
         JObject
           [(''min_ios_version'', JString ''16.0''),
            (''min_memory_gb'', JInt (if q = ''q4'' then 8 else 12)),
            (''recommended_devices'',
             JArray
               [JString ''iPhone 15 Pro'', JString ''iPhone 15 Pro Max'',
                JString ''iPad Air M1/M2'', JString ''iPad Pro M1/M2''])])]"

definition info_path :: "string \<Rightarrow> string" where
  "info_path model_path = path_str (truediv (Path model_path) ''model_info.json'')"

text \<open>
  \<^verbatim>\<open>generate_model_info\<close>. The clock is read while the dictionary is built, before the
  catalogue lookup that can raise \<^verbatim>\<open>KeyError\<close>. The first component of the result is the
  exception that leaves the function, if any.
\<close>

definition generate_model_info ::
  "env \<Rightarrow> string \<Rightarrow> string \<Rightarrow> string \<Rightarrow> world \<Rightarrow> exn option \<times> world"
where
  "generate_model_info E model_path model_name q w =
     (let t = now E (clock_reads w);
          w1 = w\<lparr>clock_reads := Suc (clock_reads w)\<rparr> in
      case lookup_model model_name of
        None \<Rightarrow> (Some (KeyError model_name), w1)
      | Some config \<Rightarrow>
          (let info = model_info model_path model_name q t (description config) in
           case ext_write E (info_path model_path) info (fs w1) of
             Some (e, fs') \<Rightarrow> (Some e, w1\<lparr>fs := fs'\<rparr>)
           | None \<Rightarrow>
               (None,
                emit (ModelInfoSaved (info_path model_path))
                  (w1\<lparr>fs := (fs w1)(info_path model_path \<mapsto> JsonFile info)\<rparr>))))"

subsection \<open>iOS optimisation\<close>

definition optimize_for_ios :: "env \<Rightarrow> string \<Rightarrow> world \<Rightarrow> world" where
  "optimize_for_ios E model_path w =
     (let w1 = record_call (Load model_path) (emit ApplyingIos w) in
      case ext_load E model_path (fs w1) of
        Some e \<Rightarrow> emit (IosFailed e) w1
      | None \<Rightarrow> emit IosApplied w1)"

subsection \<open>Conversion driver\<close>

text \<open>
  The body of the \<^verbatim>\<open>try\<close> block once the output path is known: lines 86 to 127, with
  the handler of lines 129 to 131.
\<close>

definition convert_at ::
  "env \<Rightarrow> string \<Rightarrow> string \<Rightarrow> string \<Rightarrow> string \<Rightarrow> world \<Rightarrow> bool \<times> world"
where
  "convert_at E model_name hf q out w =
     (let w1 = emits [ActualOutput out, StartingConversion] w in
      case run_convert E (convert_call hf out q) w1 of
        (Some e, w2) \<Rightarrow> (False, emit (ConversionFailed e) w2)
      | (None, w2) \<Rightarrow>
          (let w3 = test_model E out (emits [ConversionCompleted, TestingModel] w2) in
           case generate_model_info E out model_name q w3 of
             (Some e, w4) \<Rightarrow> (False, emit (ConversionFailed e) w4)
           | (None, w4) \<Rightarrow> (True, w4)))"

text \<open>\<^verbatim>\<open>convert_model_to_mlx\<close>. \<open>None\<close>: the search for an unused path never ends.\<close>

definition convert_model_to_mlx ::
  "env \<Rightarrow> string \<Rightarrow> string \<Rightarrow> string \<Rightarrow> world \<Rightarrow> (bool \<times> world) option"
where
  "convert_model_to_mlx E model_name output_dir q w =
     (case lookup_model model_name of
        None \<Rightarrow> Some (False, emits [UnknownModel model_name, AvailableModels model_keys] w)
      | Some config \<Rightarrow>
          (let w1 = emits [Converting (description config), Source (hf_path config),
                          Output output_dir, Quantization q] w in
           case allocate_output_path (now E) (random_raw E) output_dir w1 of
             None \<Rightarrow> None
           | Some (output_path, w2) \<Rightarrow>
               Some (convert_at E model_name (hf_path config) q (path_str output_path) w2)))"

subsection \<open>The script\<close>

text \<open>
  Running the file: the imports of lines 12 to 15 (an import that fails there is an
  uncaught \<^verbatim>\<open>ImportError\<close>: a traceback and status 1), then \<^verbatim>\<open>main\<close>. The result is the
  exit status and the final state; falling off the end of \<^verbatim>\<open>main\<close> is status 0.
\<close>

definition main :: "env \<Rightarrow> args \<Rightarrow> world \<Rightarrow> (nat \<times> world) option" where
  "main E a w =
     (case setup_environment E (emits [Banner, Equals] w) of
        (Some status, w1) \<Rightarrow> Some (status, w1)
      | (None, w1) \<Rightarrow>
          (case convert_model_to_mlx E (args_model a) (args_output a) (args_quantization a) w1 of
             None \<Rightarrow> None
           | Some (success, w2) \<Rightarrow>
               (let w3 = (if success \<and> args_optimize_ios a then optimize_for_ios E (args_output a) w2
                          else w2) in
                if success then
                  Some (0, emits [CompletedSuccessfully, ReadyForIos (args_output a), NextSteps,
                                  NextStep 1, NextStep 2, NextStep 3] w3)
                else Some (1, emit FailedBanner w3))))"

definition script :: "env \<Rightarrow> cli_arg list \<Rightarrow> world \<Rightarrow> (nat \<times> world) option" where
  "script E argv w =
     (if \<not> has_mlx E then Some (1, emit (Traceback (ImportError ''mlx'')) w)
      else if \<not> has_mlx_lm E then Some (1, emit (Traceback (ImportError ''mlx_lm'')) w)
      else if \<not> has_numpy E then Some (1, emit (Traceback (ImportError ''numpy'')) w)
      else
        case parse_args argv of
          Inl (status, msg) \<Rightarrow> Some (status, emit msg w)
        | Inr a \<Rightarrow> main E a w)"

subsection \<open>Notions used in the statements\<close>

text \<open>A piece of text without a slash, a path component, and a well-formed path.\<close>

definition no_sep :: "string \<Rightarrow> bool" where
  "no_sep s = (CHR ''/'' \<notin> set s)"

definition component :: "string \<Rightarrow> bool" where
  "component c = (proper c \<and> no_sep c)"

definition wf_path :: "pure_path \<Rightarrow> bool" where
  "wf_path p = (path_root p \<in> {[], ''/'', ''//''} \<and> list_all component (tail p))"

text \<open>
  The suffix that the \<open>k\<close>-th evaluation of the f-string yields when the search starts in
  state \<open>w\<close>, the candidate path it gives, and the state after \<open>k\<close> evaluations.
\<close>

definition draw :: "(nat \<Rightarrow> datetime) \<Rightarrow> (nat \<Rightarrow> nat) \<Rightarrow> world \<Rightarrow> nat \<Rightarrow> string" where
  "draw clock rng w k = temp_suffix (clock (clock_reads w + k)) (rng (rng_reads w + k))"

definition nth_candidate ::
  "(nat \<Rightarrow> datetime) \<Rightarrow> (nat \<Rightarrow> nat) \<Rightarrow> string \<Rightarrow> world \<Rightarrow> nat \<Rightarrow> pure_path" where
  "nth_candidate clock rng output_dir w k = candidate (Path output_dir) (draw clock rng w k)"

definition advance :: "nat \<Rightarrow> world \<Rightarrow> world" where
  "advance k w = w\<lparr>clock_reads := clock_reads w + k, rng_reads := rng_reads w + k\<rparr>"

text \<open>The field \<^verbatim>\<open>info["usage"]["min_memory_gb"]\<close> of a manifest.\<close>

definition min_memory_gb :: "json \<Rightarrow> json option" where
  "min_memory_gb info =
     (case json_get info ''usage'' of None \<Rightarrow> None | Some u \<Rightarrow> json_get u ''min_memory_gb'')"

text \<open>The calls of the external converter and of \<^verbatim>\<open>generate\<close> in a trace.\<close>

fun is_convert :: "ext_call \<Rightarrow> bool" where
  "is_convert (Convert h out qz b g) = True"
| "is_convert c = False"

fun is_generate :: "ext_call \<Rightarrow> bool" where
  "is_generate (Generate d p n t) = True"
| "is_generate c = False"

text \<open>
  Two states that differ at most in what was printed and in the trace of calls.
\<close>

definition same_outcome :: "world \<Rightarrow> world \<Rightarrow> bool" where
  "same_outcome w w' =
     (fs w = fs w' \<and> clock_reads w = clock_reads w' \<and> rng_reads w = rng_reads w')"



subsection \<open>Concrete environments\<close>

text \<open>
  An environment in which everything works, used to evaluate the script on concrete
  inputs: the clock advances by one second per reading, the generator always draws 1234,
  the converter creates the output directory, the loader and the generator succeed and
  the manifest is written.
\<close>

definition ticking_clock :: "nat \<Rightarrow> datetime" where
  "ticking_clock k =
     \<lparr>year = 2025, month = 1, day = 1, hour = 0, minute = 0, second = k, microsecond = 0\<rparr>"

definition good_env :: env where
  "good_env =
     \<lparr>has_mlx = True, has_mlx_lm = True, has_numpy = True,
      now = ticking_clock,
      random_raw = (\<lambda>k. 234),
      get_active_memory = Inr (16 * 1024 ^ 3),
      ext_convert = (\<lambda>c f. (None, f(mlx_path c \<mapsto> Directory))),
      ext_load = (\<lambda>p f. None),
      ext_generate = (\<lambda>c f. Inr ''Category: food''),
      ext_write = (\<lambda>p j f. None)\<rparr>"

definition empty_world :: world where
  "empty_world = \<lparr>fs = Map.empty, console = [], calls = [], clock_reads = 0, rng_reads = 0\<rparr>"

text \<open>A clock that stands still, and a state in which the one candidate it gives for
  the base \<^verbatim>\<open>x\<close> is taken.\<close>

definition frozen_clock :: "nat \<Rightarrow> datetime" where
  "frozen_clock k = ticking_clock 0"


text \<open>Environments in which one step of the outside fails.\<close>

definition load_fails_env :: env where
  "load_fails_env = good_env\<lparr>ext_load := (\<lambda>p f. Some (Raised ''no weights found''))\<rparr>"

definition generate_fails_env :: env where
  "generate_fails_env =
     good_env\<lparr>ext_generate := (\<lambda>c f. Inl (Raised ''unexpected keyword argument temp''))\<rparr>"

text \<open>The environment in which everything works and the clock stands still.\<close>

definition frozen_env :: env where
  "frozen_env = good_env\<lparr>now := frozen_clock\<rparr>"

text \<open>
  The imports of lines 12 to 15 succeed; the state in which \<^verbatim>\<open>main\<close> calls the driver; and
  the result of that call.
\<close>

definition imports_ok :: "env \<Rightarrow> bool" where
  "imports_ok E = (has_mlx E \<and> has_mlx_lm E \<and> has_numpy E)"

definition after_setup :: "env \<Rightarrow> world \<Rightarrow> world" where
  "after_setup E w = snd (setup_environment E (emits [Banner, Equals] w))"

definition conversion_result :: "env \<Rightarrow> args \<Rightarrow> world \<Rightarrow> (bool \<times> world) option" where
  "conversion_result E a w =
     convert_model_to_mlx E (args_model a) (args_output a) (args_quantization a) (after_setup E w)"

definition convert_fails_env :: env where
  "convert_fails_env = good_env\<lparr>ext_convert := (\<lambda>c f. (Some (Raised ''download failed''), f))\<rparr>"

definition no_runtime_env :: env where
  "no_runtime_env = good_env\<lparr>has_mlx := False\<rparr>"


section \<open>Properties\<close>

declare digits.simps [simp del]

subsection \<open>Digits and suffixes\<close>

lemma digit_char_in: "d < 10 \<Longrightarrow> ''0123456789'' ! d \<in> set ''0123456789''"
  by (rule nth_mem) simp

lemma digits_set: "set (digits n) \<subseteq> set ''0123456789''"
proof (induction n rule: digits.induct)
  case (1 n)
  show ?case
  proof (cases "n < 10")
    case True
    then show ?thesis using digit_char_in [of n] by (subst digits.simps) simp
  next
    case False
    have "n mod 10 < 10" by simp
    then have "''0123456789'' ! (n mod 10) \<in> set ''0123456789''" by (rule digit_char_in)
    with False 1 show ?thesis by (subst digits.simps) simp
  qed
qed






subsection \<open>Splitting, joining and parsing paths\<close>

lemma split_sep_nonempty: "split_sep s \<noteq> []"
  by (induction s) auto


lemma split_sep_components: "list_all no_sep (split_sep s)"
proof (induction s)
  case Nil
  show ?case by (simp add: no_sep_def)
next
  case (Cons c cs)
  from split_sep_nonempty [of cs] obtain x xs where x: "split_sep cs = x # xs"
    by (cases "split_sep cs") auto
  with Cons show ?case by (auto simp: no_sep_def)
qed

lemma split_sep_no_sep: "no_sep s \<Longrightarrow> split_sep s = [s]"
  by (induction s) (auto simp: no_sep_def)

lemma split_sep_append_sep: "split_sep (a @ CHR ''/'' # b) = split_sep a @ split_sep b"
  by (induction a) (auto simp: split_sep_nonempty)


lemma split_join:
  "cs \<noteq> [] \<Longrightarrow> list_all no_sep cs \<Longrightarrow> split_sep (join_sep cs) = cs"
proof (induction cs rule: join_sep.induct)
  case 1
  then show ?case by simp
next
  case (2 x)
  then show ?case by (simp add: split_sep_no_sep)
next
  case (3 x y ys)
  then show ?case by (simp add: split_sep_append_sep split_sep_no_sep)
qed

lemma join_sep_hd:
  "list_all component cs \<Longrightarrow> take 1 (join_sep cs) \<noteq> ''/''"
proof (cases cs)
  case Nil
  then show ?thesis by simp
next
  case (Cons x xs)
  assume "list_all component cs"
  with Cons have "x \<noteq> []" "CHR ''/'' \<notin> set x" by (auto simp: component_def proper_def no_sep_def)
  then obtain a as where "x = a # as" "a \<noteq> CHR ''/''" by (cases x) auto
  with Cons show ?thesis by (cases xs) auto
qed

lemma wf_Path: "wf_path (Path s)"
proof -
  have "list_all no_sep (split_sep t)" for t by (rule split_sep_components)
  then have "list_all component (filter proper (split_sep t))" for t
    by (auto simp: list_all_iff component_def)
  then show ?thesis
    by (auto simp: wf_path_def Path_def splitroot_def)
qed

lemma filter_proper_components: "list_all component cs \<Longrightarrow> filter proper cs = cs"
  by (induction cs) (auto simp: component_def)

lemma Path_join_sep:
  "list_all component cs \<Longrightarrow> filter proper (split_sep (join_sep cs)) = cs"
proof (cases "cs = []")
  case True
  then show ?thesis by (simp add: proper_def)
next
  case False
  assume c: "list_all component cs"
  then have "list_all no_sep cs" by (auto simp: list_all_iff component_def)
  with False have "split_sep (join_sep cs) = cs" by (rule split_join)
  with c show ?thesis by (simp add: filter_proper_components)
qed

lemma Path_path_str: "wf_path p \<Longrightarrow> Path (path_str p) = p"
proof -
  assume wf: "wf_path p"
  then have cs: "list_all component (tail p)" by (simp add: wf_path_def)
  note hd = join_sep_hd [OF cs]
  note rt = Path_join_sep [OF cs]
  from wf consider "path_root p = []" | "path_root p = ''/''" | "path_root p = ''//''"
    by (auto simp: wf_path_def)
  then show ?thesis
  proof cases
    case 1
    show ?thesis
    proof (cases "tail p = []")
      case True
      with 1 show ?thesis by (simp add: path_str_def Path_def splitroot_def proper_def)
    next
      case False
      with 1 hd rt show ?thesis by (simp add: path_str_def Path_def splitroot_def)
    qed
  next
    case 2
    with hd rt show ?thesis by (simp add: path_str_def Path_def splitroot_def)
  next
    case 3
    with hd rt show ?thesis by (simp add: path_str_def Path_def splitroot_def)
  qed
qed

lemma Path_component: "component k \<Longrightarrow> Path k = \<lparr>path_root = [], tail = [k]\<rparr>"
proof -
  assume k: "component k"
  then obtain a as where "k = a # as" "a \<noteq> CHR ''/''"
    by (cases k) (auto simp: component_def proper_def no_sep_def)
  then have "splitroot k = ([], k)" by (simp add: splitroot_def)
  with k show ?thesis by (simp add: Path_def split_sep_no_sep component_def)
qed

lemma no_sep_digits: "no_sep (digits n)"
  using digits_set [of n] by (auto simp: no_sep_def)

lemma no_sep_zfill: "no_sep s \<Longrightarrow> no_sep (zfill k s)"
  by (auto simp: no_sep_def zfill_def)

lemma no_sep_append: "no_sep (a @ b) = (no_sep a \<and> no_sep b)"
  by (auto simp: no_sep_def)

lemma no_sep_Nil: "no_sep []"
  by (simp add: no_sep_def)

lemma no_sep_Cons: "no_sep (c # s) = (c \<noteq> CHR ''/'' \<and> no_sep s)"
  by (auto simp: no_sep_def)

lemma no_sep_strftime: "no_sep (strftime t)"
  by (simp add: strftime_def no_sep_append no_sep_Cons no_sep_zfill no_sep_digits)

lemma no_sep_temp_suffix: "no_sep (temp_suffix t raw)"
  by (simp add: temp_suffix_def no_sep_append no_sep_Cons no_sep_strftime no_sep_digits)

lemma no_sep_name: "wf_path p \<Longrightarrow> no_sep (name p)"
  by (cases "tail p = []") (auto simp: name_def wf_path_def list_all_iff component_def no_sep_def)

lemma component_child: "no_sep n \<Longrightarrow> no_sep sfx \<Longrightarrow> component (n @ ''_'' @ sfx)"
  by (auto simp: component_def proper_def no_sep_def append_eq_Cons_conv)

lemma candidate_parts:
  assumes "wf_path b" "no_sep sfx"
  shows "candidate b sfx = \<lparr>path_root = path_root b, tail = butlast (tail b) @ [name b @ ''_'' @ sfx]\<rparr>"
proof -
  have "component (name b @ ''_'' @ sfx)"
    using assms by (intro component_child no_sep_name)
  then have "Path (name b @ ''_'' @ sfx) = \<lparr>path_root = [], tail = [name b @ ''_'' @ sfx]\<rparr>"
    by (rule Path_component)
  then show ?thesis
    by (cases "tail b = []") (simp_all add: candidate_def truediv_def parent_def)
qed

lemma wf_candidate:
  assumes "wf_path b" "no_sep sfx"
  shows "wf_path (candidate b sfx)"
proof -
  have c: "component (name b @ ''_'' @ sfx)"
    using assms by (intro component_child no_sep_name)
  have "list_all component (butlast (tail b))"
    using assms(1) by (auto simp: wf_path_def list_all_iff dest: in_set_butlastD)
  with c assms show ?thesis
    by (simp add: candidate_parts wf_path_def)
qed

lemma candidate_neq_base:
  assumes "wf_path b" "no_sep sfx"
  shows "candidate b sfx \<noteq> b"
proof
  assume eq: "candidate b sfx = b"
  then have t: "butlast (tail b) @ [name b @ ''_'' @ sfx] = tail b"
    using candidate_parts [OF assms] by (metis pure_path.select_convs(2))
  show False
  proof (cases "tail b = []")
    case True
    with t show False by simp
  next
    case False
    then have "tail b = butlast (tail b) @ [last (tail b)]" by simp
    with t have "name b @ ''_'' @ sfx = last (tail b)" by (metis append1_eq_conv)
    with False show False by (simp add: name_def)
  qed
qed

lemma candidate_str_neq:
  assumes "no_sep sfx"
  shows "path_str (candidate (Path s) sfx) \<noteq> s"
proof
  assume eq: "path_str (candidate (Path s) sfx) = s"
  have "wf_path (candidate (Path s) sfx)" using wf_Path assms by (rule wf_candidate)
  then have "Path (path_str (candidate (Path s) sfx)) = candidate (Path s) sfx"
    by (rule Path_path_str)
  with eq have "candidate (Path s) sfx = Path s" by simp
  with candidate_neq_base [OF wf_Path assms] show False by blast
qed





subsection \<open>The manifest\<close>

lemma lookup_model_keys: "(lookup_model m = None) = (m \<notin> set model_keys)"
  by (simp add: lookup_model_def model_keys_def map_of_eq_None_iff)

lemma generate_model_info_written:
  assumes "generate_model_info E model_path model_name q w = (None, w')"
  shows "\<exists>config. lookup_model model_name = Some config \<and>
     w' = emit (ModelInfoSaved (info_path model_path))
            (w\<lparr>clock_reads := Suc (clock_reads w),
               fs := (fs w)(info_path model_path \<mapsto>
                 JsonFile (model_info model_path model_name q (now E (clock_reads w))
                   (description config)))\<rparr>)"
  using assms
  by (auto simp: generate_model_info_def Let_def split: option.splits prod.splits)

text \<open>
  Claim C4. The manifest's \<^verbatim>\<open>min_memory_gb\<close> field is 8 when the quantization is
  \<^verbatim>\<open>q4\<close> and 12 otherwise (so for \<^verbatim>\<open>q8\<close> and \<^verbatim>\<open>none\<close>): in the dictionary that
  \<^verbatim>\<open>generate_model_info\<close> builds, and in the file that it has written when it returns.
\<close>

theorem manifest_min_memory_gb:
  "min_memory_gb (model_info model_path model_name q t d) =
     Some (JInt (if q = ''q4'' then 8 else 12)) \<and>
   (generate_model_info E model_path model_name q w = (None, w') \<longrightarrow>
     (\<exists>info. fs w' (info_path model_path) = Some (JsonFile info) \<and>
        min_memory_gb info = Some (JInt (if q = ''q4'' then 8 else 12))))"
proof
  show m: "min_memory_gb (model_info model_path model_name q t d) =
     Some (JInt (if q = ''q4'' then 8 else 12))" for t d
    by (simp add: min_memory_gb_def model_info_def)
  show "generate_model_info E model_path model_name q w = (None, w') \<longrightarrow>
     (\<exists>info. fs w' (info_path model_path) = Some (JsonFile info) \<and>
        min_memory_gb info = Some (JInt (if q = ''q4'' then 8 else 12)))"
  proof
    assume "generate_model_info E model_path model_name q w = (None, w')"
    from generate_model_info_written [OF this] obtain config where
      "lookup_model model_name = Some config \<and> w' = emit (ModelInfoSaved (info_path model_path))
            (w\<lparr>clock_reads := Suc (clock_reads w),
               fs := (fs w)(info_path model_path \<mapsto>
                 JsonFile (model_info model_path model_name q (now E (clock_reads w))
                   (description config)))\<rparr>)" ..
    then have w': "w' = emit (ModelInfoSaved (info_path model_path))
            (w\<lparr>clock_reads := Suc (clock_reads w),
               fs := (fs w)(info_path model_path \<mapsto>
                 JsonFile (model_info model_path model_name q (now E (clock_reads w))
                   (description config)))\<rparr>)" ..
    have "fs w' (info_path model_path) = Some (JsonFile (model_info model_path model_name q
         (now E (clock_reads w)) (description config)))"
      unfolding w' by (simp add: emit_def)
    with m show "\<exists>info. fs w' (info_path model_path) = Some (JsonFile info) \<and>
        min_memory_gb info = Some (JInt (if q = ''q4'' then 8 else 12))"
      by blast
  qed
qed

lemma good_manifest_run:
  "fst (generate_model_info good_env ''out'' ''deepseek-r1-8b'' ''q8'' empty_world) = None"
  by (simp add: generate_model_info_def good_env_def lookup_model_def DEEPSEEK_MODELS_def Let_def)

theorem manifest_min_memory_gb_witness:
  "min_memory_gb (model_info ''out'' ''deepseek-r1-8b'' ''q4'' (ticking_clock 0) ''d'') = Some (JInt 8) \<and>
   (\<exists>info. fs (snd (generate_model_info good_env ''out'' ''deepseek-r1-8b'' ''q8'' empty_world))
        (info_path ''out'') = Some (JsonFile info) \<and> min_memory_gb info = Some (JInt 12))"
proof -
  have r: "generate_model_info good_env ''out'' ''deepseek-r1-8b'' ''q8'' empty_world =
      (None, snd (generate_model_info good_env ''out'' ''deepseek-r1-8b'' ''q8'' empty_world))"
    using good_manifest_run by (simp add: prod_eq_iff)
  have "min_memory_gb (model_info ''out'' ''deepseek-r1-8b'' ''q4'' (ticking_clock 0) ''d'') = Some (JInt 8)"
    using manifest_min_memory_gb [of "''out''" "''deepseek-r1-8b''" "''q4''" "ticking_clock 0" "''d''"]
    by simp
  moreover have "\<exists>info. fs (snd (generate_model_info good_env ''out'' ''deepseek-r1-8b'' ''q8'' empty_world))
        (info_path ''out'') = Some (JsonFile info) \<and> min_memory_gb info = Some (JInt 12)"
    using manifest_min_memory_gb [of "''out''" "''deepseek-r1-8b''" "''q8''" _ _ good_env empty_world,
      THEN conjunct2, rule_format, OF r]
    by simp
  ultimately show ?thesis by blast
qed

subsection \<open>The search for an unused path\<close>

lemma advance_0: "advance 0 w = w"
  by (simp add: advance_def)

lemma path_exists_advance: "path_exists (advance k w) p = path_exists w p"
  by (simp add: path_exists_def advance_def)

lemma next_suffix_advance:
  "next_suffix clock rng (advance k w) = (draw clock rng w k, advance (Suc k) w)"
  by (simp add: next_suffix_def advance_def draw_def)

lemma allocate_as_retry:
  "allocate_output_path clock rng d w =
     retry_until_unused clock rng (Path d) (advance (Suc 0) w) (nth_candidate clock rng d w 0)"
  using next_suffix_advance [of clock rng 0 w]
  by (simp add: allocate_output_path_def advance_0 nth_candidate_def)

lemma retry_step:
  "path_exists w (nth_candidate clock rng d w j) \<Longrightarrow>
   retry_until_unused clock rng (Path d) (advance (Suc j) w) (nth_candidate clock rng d w j) =
   retry_until_unused clock rng (Path d) (advance (Suc (Suc j)) w) (nth_candidate clock rng d w (Suc j))"
  by (subst retry_until_unused.simps)
     (simp add: path_exists_advance next_suffix_advance nth_candidate_def)

lemma retry_stop:
  "\<not> path_exists w (nth_candidate clock rng d w j) \<Longrightarrow>
   retry_until_unused clock rng (Path d) (advance (Suc j) w) (nth_candidate clock rng d w j) =
   Some (nth_candidate clock rng d w j, advance (Suc j) w)"
  by (subst retry_until_unused.simps) (simp add: path_exists_advance)

lemma retry_reaches:
  assumes free: "\<not> path_exists w (nth_candidate clock rng d w k)"
    and taken: "\<forall>j<k. path_exists w (nth_candidate clock rng d w j)"
  shows "n \<le> k \<Longrightarrow>
    retry_until_unused clock rng (Path d) (advance (Suc (k - n)) w)
      (nth_candidate clock rng d w (k - n)) =
    Some (nth_candidate clock rng d w k, advance (Suc k) w)"
proof (induction n)
  case 0
  show ?case using free by (simp add: retry_stop)
next
  case (Suc n)
  then have lt: "k - Suc n < k" and s: "Suc (k - Suc n) = k - n" by simp_all
  from lt taken have "path_exists w (nth_candidate clock rng d w (k - Suc n))" by blast
  from retry_step [OF this] Suc s show ?case by simp
qed

lemma allocate_first_free:
  assumes "\<not> path_exists w (nth_candidate clock rng d w k)"
    and "\<forall>j<k. path_exists w (nth_candidate clock rng d w j)"
  shows "allocate_output_path clock rng d w =
    Some (nth_candidate clock rng d w k, advance (Suc k) w)"
  using retry_reaches [OF assms, of k] by (simp add: allocate_as_retry)

lemma retry_never_aux:
  assumes all: "\<forall>k. path_exists w (nth_candidate clock rng d w k)"
    and run: "retry_until_unused c r b w' p = Some y"
  shows "c = clock \<longrightarrow> r = rng \<longrightarrow> b = Path d \<longrightarrow>
    (\<forall>j. w' = advance (Suc j) w \<longrightarrow> p \<noteq> nth_candidate clock rng d w j)"
  using run
proof (induction rule: retry_until_unused.raw_induct [rotated 1, consumes 1])
  case (1 retry c r b w' p y)
  show ?case
  proof (intro impI allI notI)
    fix j
    assume eq: "c = clock" "r = rng" "b = Path d" "w' = advance (Suc j) w"
      "p = nth_candidate clock rng d w j"
    from all have "path_exists w (nth_candidate clock rng d w j)" by blast
    with eq have "path_exists w' p" by (simp add: path_exists_advance)
    with "1.hyps" eq have
      "retry clock rng (Path d) (advance (Suc (Suc j)) w) (nth_candidate clock rng d w (Suc j)) = Some y"
      by (simp add: next_suffix_advance nth_candidate_def)
    from "1.IH" [OF this] show False by blast
  qed
qed

lemma allocate_never:
  assumes "\<forall>k. path_exists w (nth_candidate clock rng d w k)"
  shows "allocate_output_path clock rng d w = None"
proof (cases "allocate_output_path clock rng d w")
  case None
  then show ?thesis .
next
  case (Some y)
  then have "retry_until_unused clock rng (Path d) (advance (Suc 0) w)
      (nth_candidate clock rng d w 0) = Some y"
    by (simp add: allocate_as_retry)
  from retry_never_aux [OF assms this] show ?thesis by blast
qed

lemma allocate_returns_iff:
  "(allocate_output_path clock rng d w \<noteq> None) =
   (\<exists>k. \<not> path_exists w (nth_candidate clock rng d w k))"
proof
  assume "allocate_output_path clock rng d w \<noteq> None"
  with allocate_never [of w clock rng d]
  show "\<exists>k. \<not> path_exists w (nth_candidate clock rng d w k)" by blast
next
  assume "\<exists>k. \<not> path_exists w (nth_candidate clock rng d w k)"
  then obtain k where k: "\<not> path_exists w (nth_candidate clock rng d w k)"
    and least: "\<forall>j<k. path_exists w (nth_candidate clock rng d w j)"
    using exists_least_iff [of "\<lambda>k. \<not> path_exists w (nth_candidate clock rng d w k)"] by blast
  from allocate_first_free [OF k least] show "allocate_output_path clock rng d w \<noteq> None" by simp
qed

lemma allocate_result:
  assumes "allocate_output_path clock rng d w = Some (p, w')"
  shows "\<exists>k. p = nth_candidate clock rng d w k \<and> w' = advance (Suc k) w \<and>
    \<not> path_exists w p \<and> (\<forall>j<k. path_exists w (nth_candidate clock rng d w j))"
proof -
  from assms have "allocate_output_path clock rng d w \<noteq> None" by simp
  then obtain k where k: "\<not> path_exists w (nth_candidate clock rng d w k)"
    and least: "\<forall>j<k. path_exists w (nth_candidate clock rng d w j)"
    unfolding allocate_returns_iff
    using exists_least_iff [of "\<lambda>k. \<not> path_exists w (nth_candidate clock rng d w k)"] by blast
  from allocate_first_free [OF k least] assms k least show ?thesis by auto
qed









subsection \<open>Termination of the search\<close>










subsection \<open>The allocated output path\<close>


lemma no_sep_draw: "no_sep (draw clock rng w k)"
  by (simp add: draw_def no_sep_temp_suffix)

lemma advance_fields:
  "fs (advance k w) = fs w" "console (advance k w) = console w" "calls (advance k w) = calls w"
  "clock_reads (advance k w) = clock_reads w + k" "rng_reads (advance k w) = rng_reads w + k"
  by (simp_all add: advance_def)





subsection \<open>Unknown model ids\<close>

lemma model_keys_eval: "model_keys = [''deepseek-r1-8b'', ''deepseek-r1-qwen-8b'']"
  by (simp add: model_keys_def DEEPSEEK_MODELS_def)

lemma emit_fields:
  "fs (emit l w) = fs w" "calls (emit l w) = calls w" "console (emit l w) = console w @ [l]"
  "clock_reads (emit l w) = clock_reads w" "rng_reads (emit l w) = rng_reads w"
  by (simp_all add: emit_def)

lemma emits_fields:
  "fs (emits ls w) = fs w" "calls (emits ls w) = calls w" "console (emits ls w) = console w @ ls"
  "clock_reads (emits ls w) = clock_reads w" "rng_reads (emits ls w) = rng_reads w"
  by (simp_all add: emits_def)

lemma record_call_fields:
  "fs (record_call c w) = fs w" "calls (record_call c w) = calls w @ [c]"
  "console (record_call c w) = console w"
  "clock_reads (record_call c w) = clock_reads w" "rng_reads (record_call c w) = rng_reads w"
  by (simp_all add: record_call_def)

lemma parse_from_prefix:
  "parse_from a pre = Inr a' \<Longrightarrow> parse_from a (pre @ rest) = parse_from a' rest"
  by (induction a pre rule: parse_from.induct) (auto split: if_splits)

lemma parse_from_invalid_model:
  "ModelArg m \<in> set argv \<Longrightarrow> m \<notin> set model_keys \<Longrightarrow>
   (\<exists>opt v choices. parse_from a argv = Inl (2, InvalidChoice opt v choices)) \<or>
   parse_from a argv = Inl (0, HelpText) \<and> HelpArg \<in> set argv"
  by (induction a argv rule: parse_from.induct) auto

lemma parse_from_help:
  "parse_from a pre = Inr a' \<Longrightarrow> parse_from a (pre @ HelpArg # rest) = Inl (0, HelpText)"
  by (simp add: parse_from_prefix)

lemma setup_environment_fields:
  "fs (snd (setup_environment E w)) = fs w"
  "calls (snd (setup_environment E w)) = calls w"
  "clock_reads (snd (setup_environment E w)) = clock_reads w"
  "rng_reads (snd (setup_environment E w)) = rng_reads w"
  by (simp_all add: setup_environment_def Let_def emit_fields emits_fields split: sum.splits)

lemma setup_environment_status:
  "fst (setup_environment E w) = (if has_mlx E \<and> has_mlx_lm E then None else Some 1)"
  by (simp add: setup_environment_def Let_def)

lemma main_unknown_model:
  assumes "args_model a \<notin> set model_keys"
  shows "\<exists>w'. main E a w = Some (1, w') \<and> fs w' = fs w \<and> calls w' = calls w"
proof -
  from assms have n: "lookup_model (args_model a) = None" by (simp add: lookup_model_keys)
  obtain st w1 where s: "setup_environment E (emits [Banner, Equals] w) = (st, w1)"
    by (cases "setup_environment E (emits [Banner, Equals] w)")
  with setup_environment_fields [of E "emits [Banner, Equals] w"]
  have f: "fs w1 = fs w" "calls w1 = calls w" by (simp_all add: emits_fields)
  from s setup_environment_status [of E "emits [Banner, Equals] w"]
  have st: "st = None \<or> st = Some 1" by (auto split: if_splits)
  from st show ?thesis
  proof
    assume "st = None"
    with s n f show ?thesis
      by (simp add: main_def convert_model_to_mlx_def emit_fields emits_fields)
  next
    assume "st = Some 1"
    with s f show ?thesis by (simp add: main_def)
  qed
qed

text \<open>
  Claim C1, amended. For every requested model id that is not in the catalogue (the two
  ids of \<open>model_keys\<close>):
  \<^item> the conversion driver, called with it, returns \<^verbatim>\<open>False\<close>, prints the id and the list of
    valid ids, and changes neither the file system nor the trace of external calls;
    \<^verbatim>\<open>main\<close>, run on arguments that hold it, ends with status 1 and writes nothing;
  \<^item> on the command line it never reaches the driver, and nothing is written or called.
    When the options before it parse, the \<^verbatim>\<open>choices\<close> of \<^verbatim>\<open>--model\<close> reject it: the process
    ends with status 2 and an error that lists the valid ids. On any command line that
    holds it and no help option the status is 2. A help option that is consumed first
    ends the process with status 0 and the help text; an import of the runtime that fails
    ends it with status 1 before the command line is read.
\<close>

theorem unknown_model_rejected:
  assumes "m \<notin> set model_keys"
  shows
    "convert_model_to_mlx E m output_dir q w =
       Some (False, emits [UnknownModel m, AvailableModels model_keys] w) \<and>
     fs (emits [UnknownModel m, AvailableModels model_keys] w) = fs w \<and>
     calls (emits [UnknownModel m, AvailableModels model_keys] w) = calls w \<and>
     model_keys = [''deepseek-r1-8b'', ''deepseek-r1-qwen-8b''] \<and>
     (\<exists>w'. main E (a0\<lparr>args_model := m\<rparr>) w = Some (1, w') \<and> fs w' = fs w \<and> calls w' = calls w) \<and>
     (has_mlx E \<and> has_mlx_lm E \<and> has_numpy E \<longrightarrow>
        (parse_args pre = Inr a \<longrightarrow>
           script E (pre @ ModelArg m # rest) w =
             Some (2, emit (InvalidChoice ''--model'' m model_keys) w)) \<and>
        (parse_args pre = Inr a \<longrightarrow>
           script E (pre @ HelpArg # rest) w = Some (0, emit HelpText w)) \<and>
        (ModelArg m \<in> set argv \<and> HelpArg \<notin> set argv \<longrightarrow>
           (\<exists>opt v choices. script E argv w =
              Some (2, emit (InvalidChoice opt v choices) w))) \<and>
        (ModelArg m \<in> set argv \<longrightarrow>
           (\<exists>opt v choices. script E argv w =
              Some (2, emit (InvalidChoice opt v choices) w)) \<or>
           script E argv w = Some (0, emit HelpText w) \<and> HelpArg \<in> set argv)) \<and>
     (ModelArg m \<in> set argv \<longrightarrow>
        (\<exists>status w'. script E argv w = Some (status, w') \<and>
           (status = 0 \<or> status = 1 \<or> status = 2) \<and>
           fs w' = fs w \<and> calls w' = calls w))"
proof (intro conjI impI)
  from assms have n: "lookup_model m = None" by (simp add: lookup_model_keys)
  then show "convert_model_to_mlx E m output_dir q w =
       Some (False, emits [UnknownModel m, AvailableModels model_keys] w)"
    by (simp add: convert_model_to_mlx_def)
  show "fs (emits [UnknownModel m, AvailableModels model_keys] w) = fs w"
    "calls (emits [UnknownModel m, AvailableModels model_keys] w) = calls w"
    by (simp_all add: emits_fields)
  show "model_keys = [''deepseek-r1-8b'', ''deepseek-r1-qwen-8b'']" by (rule model_keys_eval)
  show "\<exists>w'. main E (a0\<lparr>args_model := m\<rparr>) w = Some (1, w') \<and> fs w' = fs w \<and> calls w' = calls w"
    using assms by (intro main_unknown_model) simp
next
  assume ok: "has_mlx E \<and> has_mlx_lm E \<and> has_numpy E" and pre: "parse_args pre = Inr a"
  from pre have "parse_args (pre @ ModelArg m # rest) = parse_from a (ModelArg m # rest)"
    by (simp add: parse_args_def parse_from_prefix)
  with assms ok show "script E (pre @ ModelArg m # rest) w =
      Some (2, emit (InvalidChoice ''--model'' m model_keys) w)"
    by (simp add: script_def)
next
  assume ok: "has_mlx E \<and> has_mlx_lm E \<and> has_numpy E" and pre: "parse_args pre = Inr a"
  from pre have "parse_args (pre @ HelpArg # rest) = Inl (0, HelpText)"
    by (simp add: parse_args_def parse_from_help)
  with ok show "script E (pre @ HelpArg # rest) w = Some (0, emit HelpText w)"
    by (simp add: script_def)
next
  assume ok: "has_mlx E \<and> has_mlx_lm E \<and> has_numpy E"
    and "ModelArg m \<in> set argv \<and> HelpArg \<notin> set argv"
  with assms parse_from_invalid_model [of m argv default_args]
  obtain opt v choices where "parse_args argv = Inl (2, InvalidChoice opt v choices)"
    by (auto simp: parse_args_def)
  with ok have "script E argv w = Some (2, emit (InvalidChoice opt v choices) w)"
    by (simp add: script_def)
  then show "\<exists>opt v choices. script E argv w =
      Some (2, emit (InvalidChoice opt v choices) w)"
    by blast
next
  assume ok: "has_mlx E \<and> has_mlx_lm E \<and> has_numpy E" and "ModelArg m \<in> set argv"
  with assms parse_from_invalid_model [of m argv default_args]
  have "(\<exists>opt v choices. parse_args argv = Inl (2, InvalidChoice opt v choices)) \<or>
      parse_args argv = Inl (0, HelpText) \<and> HelpArg \<in> set argv"
    by (simp add: parse_args_def)
  then show "(\<exists>opt v choices. script E argv w =
      Some (2, emit (InvalidChoice opt v choices) w)) \<or>
      script E argv w = Some (0, emit HelpText w) \<and> HelpArg \<in> set argv"
  proof
    assume "\<exists>opt v choices. parse_args argv = Inl (2, InvalidChoice opt v choices)"
    then obtain opt v choices where "parse_args argv = Inl (2, InvalidChoice opt v choices)"
      by blast
    with ok have "script E argv w = Some (2, emit (InvalidChoice opt v choices) w)"
      by (simp add: script_def)
    then show ?thesis by blast
  next
    assume "parse_args argv = Inl (0, HelpText) \<and> HelpArg \<in> set argv"
    with ok show ?thesis by (simp add: script_def)
  qed
next
  assume "ModelArg m \<in> set argv"
  with assms parse_from_invalid_model [of m argv default_args]
  obtain st msg where "parse_args argv = Inl (st, msg)" "st = 0 \<or> st = 2"
    by (auto simp: parse_args_def)
  then show "\<exists>status w'. script E argv w = Some (status, w') \<and>
           (status = 0 \<or> status = 1 \<or> status = 2) \<and>
           fs w' = fs w \<and> calls w' = calls w"
    by (auto simp: script_def emit_fields)
qed

lemma not_a_real_model: "''not-a-real-model'' \<notin> set model_keys"
  by (simp add: model_keys_eval)

lemma parse_no_args: "parse_args [] = Inr default_args"
  by (simp add: parse_args_def)

theorem unknown_model_rejected_witness:
  "''not-a-real-model'' \<notin> set model_keys \<and>
   has_mlx good_env \<and> has_mlx_lm good_env \<and> has_numpy good_env \<and>
   parse_args [QuantizationArg ''q8''] =
     Inr (default_args\<lparr>args_quantization := ''q8''\<rparr>) \<and>
   convert_model_to_mlx good_env ''not-a-real-model'' ''out'' ''q4'' empty_world =
     Some (False, emits [UnknownModel ''not-a-real-model'',
       AvailableModels [''deepseek-r1-8b'', ''deepseek-r1-qwen-8b'']] empty_world) \<and>
   script good_env ([QuantizationArg ''q8''] @ [ModelArg ''not-a-real-model'', OptimizeIosArg]) empty_world =
     Some (2, emit (InvalidChoice ''--model'' ''not-a-real-model''
       [''deepseek-r1-8b'', ''deepseek-r1-qwen-8b'']) empty_world) \<and>
   script good_env ([QuantizationArg ''q8''] @ [HelpArg, ModelArg ''not-a-real-model'']) empty_world =
     Some (0, emit HelpText empty_world) \<and>
   ModelArg ''not-a-real-model'' \<in> set [ModelArg ''not-a-real-model'', HelpArg] \<and>
   script good_env [ModelArg ''not-a-real-model'', HelpArg] empty_world =
     Some (2, emit (InvalidChoice ''--model'' ''not-a-real-model''
       [''deepseek-r1-8b'', ''deepseek-r1-qwen-8b'']) empty_world)"
proof -
  have ok: "has_mlx good_env \<and> has_mlx_lm good_env \<and> has_numpy good_env"
    by (simp add: good_env_def)
  have pre: "parse_args [QuantizationArg ''q8''] = Inr (default_args\<lparr>args_quantization := ''q8''\<rparr>)"
    by (simp add: parse_args_def quantization_choices_def)
  note u = unknown_model_rejected [OF not_a_real_model, where E = good_env
      and output_dir = "''out''" and q = "''q4''" and w = empty_world
      and pre = "[QuantizationArg ''q8'']" and a = "default_args\<lparr>args_quantization := ''q8''\<rparr>"]
  from u [where rest = "[OptimizeIosArg]"] ok pre have 1:
    "convert_model_to_mlx good_env ''not-a-real-model'' ''out'' ''q4'' empty_world =
       Some (False, emits [UnknownModel ''not-a-real-model'', AvailableModels model_keys] empty_world)"
    "script good_env ([QuantizationArg ''q8''] @ [ModelArg ''not-a-real-model'', OptimizeIosArg]) empty_world =
       Some (2, emit (InvalidChoice ''--model'' ''not-a-real-model'' model_keys) empty_world)"
    by blast+
  from u [where rest = "[ModelArg ''not-a-real-model'']"] ok pre have 2:
    "script good_env ([QuantizationArg ''q8''] @ [HelpArg, ModelArg ''not-a-real-model'']) empty_world =
       Some (0, emit HelpText empty_world)"
    by blast
  from unknown_model_rejected [OF not_a_real_model, where E = good_env and w = empty_world
      and pre = "[]" and a = default_args and rest = "[HelpArg]"] ok parse_no_args
  have 3: "script good_env [ModelArg ''not-a-real-model'', HelpArg] empty_world =
     Some (2, emit (InvalidChoice ''--model'' ''not-a-real-model'' model_keys) empty_world)"
    by simp
  from 1 2 3 ok pre not_a_real_model show ?thesis by (simp add: model_keys_eval)
qed

text \<open>
  Claim C1 as stated fails on the exit status: \<^verbatim>\<open>--model not-a-real-model\<close> ends the
  process with status 2, not 1.
\<close>

theorem unknown_model_exit_status_counterexample:
  "''not-a-real-model'' \<notin> set model_keys \<and>
   script good_env [ModelArg ''not-a-real-model''] empty_world =
     Some (2, emit (InvalidChoice ''--model'' ''not-a-real-model''
       [''deepseek-r1-8b'', ''deepseek-r1-qwen-8b'']) empty_world) \<and>
   fst (the (script good_env [ModelArg ''not-a-real-model''] empty_world)) \<noteq> 1"
  by (simp add: script_def parse_args_def model_keys_eval good_env_def)

subsection \<open>The steps of the driver\<close>

lemma test_model_calls:
  "calls (test_model E p w) =
     calls w @ Load p #
       (if ext_load E p (fs w) = None then [Generate p test_prompt 200 (3 / 10)] else [])"
  by (simp add: test_model_def Let_def emit_fields emits_fields record_call_fields
      split: option.splits sum.splits)

lemma test_model_console:
  "console (test_model E p w) =
     console w @ LoadingForTest #
       (case ext_load E p (fs w) of
          Some e \<Rightarrow> [TestFailed e]
        | None \<Rightarrow>
            GeneratingResponse #
              (case ext_generate E (Generate p test_prompt 200 (3 / 10)) (fs w) of
                 Inl e \<Rightarrow> [TestFailed e]
               | Inr response \<Rightarrow>
                   [TestOutput, Dashes, Response response, Dashes, TestSuccessful]))"
  by (simp add: test_model_def Let_def emit_fields emits_fields record_call_fields
      split: option.splits sum.splits)

lemma test_model_same: "same_outcome (test_model E p w) w"
  by (simp add: test_model_def Let_def same_outcome_def emit_fields emits_fields
      record_call_fields split: option.splits sum.splits)

lemma optimize_for_ios_calls: "calls (optimize_for_ios E p w) = calls w @ [Load p]"
  by (simp add: optimize_for_ios_def Let_def emit_fields record_call_fields split: option.splits)

lemma optimize_for_ios_same: "same_outcome (optimize_for_ios E p w) w"
  by (simp add: optimize_for_ios_def Let_def same_outcome_def emit_fields record_call_fields
      split: option.splits)

lemma generate_model_info_calls: "calls (snd (generate_model_info E p m q w)) = calls w"
  by (simp add: generate_model_info_def Let_def emit_fields split: option.splits prod.splits)

lemma generate_model_info_same:
  assumes "same_outcome w v"
  shows "fst (generate_model_info E p m q w) = fst (generate_model_info E p m q v) \<and>
    same_outcome (snd (generate_model_info E p m q w)) (snd (generate_model_info E p m q v))"
  using assms
  by (simp add: generate_model_info_def Let_def same_outcome_def emit_fields
      split: option.splits prod.splits)

lemma run_convert_fields:
  "fst (run_convert E c w) = fst (ext_convert E c (fs w))"
  "fs (snd (run_convert E c w)) = snd (ext_convert E c (fs w))"
  "calls (snd (run_convert E c w)) = calls w @ [c]"
  "console (snd (run_convert E c w)) = console w"
  "clock_reads (snd (run_convert E c w)) = clock_reads w"
  "rng_reads (snd (run_convert E c w)) = rng_reads w"
  by (simp_all add: run_convert_def record_call_fields)

lemma convert_at_failed:
  "fst (ext_convert E (convert_call hf out q) (fs w)) = Some e \<Longrightarrow>
   convert_at E m hf q out w =
     (False, emit (ConversionFailed e)
        (snd (run_convert E (convert_call hf out q)
           (emits [ActualOutput out, StartingConversion] w))))"
  by (simp add: convert_at_def Let_def run_convert_def emits_fields)

lemma convert_at_converted:
  "fst (ext_convert E (convert_call hf out q) (fs w)) = None \<Longrightarrow>
   convert_at E m hf q out w =
     (case generate_model_info E out m q
         (test_model E out (emits [ConversionCompleted, TestingModel]
            (snd (run_convert E (convert_call hf out q)
               (emits [ActualOutput out, StartingConversion] w))))) of
        (Some e, w4) \<Rightarrow> (False, emit (ConversionFailed e) w4)
      | (None, w4) \<Rightarrow> (True, w4))"
  by (simp add: convert_at_def Let_def run_convert_def emits_fields)



lemma convert_call_cases:
  "convert_call hf out q = Convert hf out True (Some 4) (Some 64) \<or>
   convert_call hf out q = Convert hf out True (Some 8) (Some 64) \<or>
   convert_call hf out q = Convert hf out False None None"
  by (simp add: convert_call_def)

lemma is_convert_convert_call: "is_convert (convert_call hf out q)"
  using convert_call_cases [of hf out q] by auto

lemma driver_result:
  assumes "lookup_model m = Some config"
    and "convert_model_to_mlx E m d q w = Some (ok, w')"
  shows "\<exists>p w2. allocate_output_path (now E) (random_raw E) d
        (emits [Converting (description config), Source (hf_path config), Output d,
          Quantization q] w) = Some (p, w2) \<and>
      (ok, w') = convert_at E m (hf_path config) q (path_str p) w2"
  using assms
  by (auto simp: convert_model_to_mlx_def Let_def split: option.splits)


lemma empty_fs_allocate:
  "fs w = Map.empty \<Longrightarrow>
   allocate_output_path clock rng d w =
     Some (nth_candidate clock rng d w 0, advance (Suc 0) w)"
  by (rule allocate_first_free) (simp_all add: path_exists_def)

lemma lookup_first_model:
  "lookup_model ''deepseek-r1-8b'' =
     Some \<lparr>hf_path = ''deepseek-ai/DeepSeek-R1-Distill-Llama-8B'',
           description = ''DeepSeek R1 Distilled Llama 8B - optimized reasoning model''\<rparr>"
  by (simp add: lookup_model_def DEEPSEEK_MODELS_def)



text \<open>Replacing the loader and the generator of an environment.\<close>

lemma generate_model_info_env:
  "generate_model_info (E\<lparr>ext_load := l, ext_generate := g\<rparr>) p m q w =
   generate_model_info E p m q w"
  by (simp add: generate_model_info_def Let_def split: option.splits)

lemma run_convert_env:
  "run_convert (E\<lparr>ext_load := l, ext_generate := g\<rparr>) c w = run_convert E c w"
  by (simp add: run_convert_def)

lemma same_outcome_refl: "same_outcome w w"
  by (simp add: same_outcome_def)

lemma same_outcome_trans: "same_outcome u v \<Longrightarrow> same_outcome v w \<Longrightarrow> same_outcome u w"
  by (simp add: same_outcome_def)

lemma same_outcome_sym: "same_outcome u v \<Longrightarrow> same_outcome v u"
  by (simp add: same_outcome_def)

lemma same_outcome_emit: "same_outcome (emit l w) w" "same_outcome (emits ls w) w"
  by (simp_all add: same_outcome_def emit_fields emits_fields)

lemma after_manifest_same:
  assumes "same_outcome u v"
  shows "fst (case generate_model_info E p m q u of
        (Some e, w4) \<Rightarrow> (False, emit (ConversionFailed e) w4)
      | (None, w4) \<Rightarrow> (True, w4)) =
     fst (case generate_model_info E p m q v of
        (Some e, w4) \<Rightarrow> (False, emit (ConversionFailed e) w4)
      | (None, w4) \<Rightarrow> (True, w4)) \<and>
     same_outcome
       (snd (case generate_model_info E p m q u of
        (Some e, w4) \<Rightarrow> (False, emit (ConversionFailed e) w4)
      | (None, w4) \<Rightarrow> (True, w4)))
       (snd (case generate_model_info E p m q v of
        (Some e, w4) \<Rightarrow> (False, emit (ConversionFailed e) w4)
      | (None, w4) \<Rightarrow> (True, w4)))"
proof -
  obtain a u4 where u: "generate_model_info E p m q u = (a, u4)"
    by (cases "generate_model_info E p m q u")
  obtain b v4 where v: "generate_model_info E p m q v = (b, v4)"
    by (cases "generate_model_info E p m q v")
  from generate_model_info_same [OF assms, of E p m q] u v
  have "a = b" "same_outcome u4 v4" by simp_all
  with u v show ?thesis
    by (cases b) (simp_all add: same_outcome_def emit_fields)
qed

lemma convert_at_env:
  "fst (convert_at (E\<lparr>ext_load := l, ext_generate := g\<rparr>) m hf q out w) =
     fst (convert_at E m hf q out w) \<and>
   same_outcome (snd (convert_at (E\<lparr>ext_load := l, ext_generate := g\<rparr>) m hf q out w))
     (snd (convert_at E m hf q out w))"
proof (cases "fst (ext_convert E (convert_call hf out q) (fs w))")
  case (Some e)
  then have "fst (ext_convert (E\<lparr>ext_load := l, ext_generate := g\<rparr>) (convert_call hf out q) (fs w)) = Some e"
    by simp
  with Some show ?thesis
    by (simp add: convert_at_failed run_convert_env same_outcome_refl)
next
  case None
  then have n: "fst (ext_convert (E\<lparr>ext_load := l, ext_generate := g\<rparr>) (convert_call hf out q) (fs w)) = None"
    by simp
  let ?w2 = "emits [ConversionCompleted, TestingModel]
      (snd (run_convert E (convert_call hf out q) (emits [ActualOutput out, StartingConversion] w)))"
  have "same_outcome (test_model (E\<lparr>ext_load := l, ext_generate := g\<rparr>) out ?w2)
      (test_model E out ?w2)"
    using test_model_same [of "E\<lparr>ext_load := l, ext_generate := g\<rparr>" out ?w2]
      test_model_same [of E out ?w2]
    by (simp add: same_outcome_def)
  from after_manifest_same [OF this, of E out m q] None n show ?thesis
    by (simp add: convert_at_converted run_convert_env generate_model_info_env)
qed

lemma driver_env:
  "map_option fst (convert_model_to_mlx (E\<lparr>ext_load := l, ext_generate := g\<rparr>) m d q w) =
     map_option fst (convert_model_to_mlx E m d q w) \<and>
   rel_option (\<lambda>a b. same_outcome (snd a) (snd b))
     (convert_model_to_mlx (E\<lparr>ext_load := l, ext_generate := g\<rparr>) m d q w)
     (convert_model_to_mlx E m d q w)"
  using convert_at_env [where E = E and l = l and g = g and m = m and q = q]
  by (simp add: convert_model_to_mlx_def Let_def same_outcome_refl
      split: option.splits prod.splits)

subsection \<open>The smoke test\<close>

lemma setup_environment_env:
  "setup_environment (E\<lparr>ext_load := l, ext_generate := g\<rparr>) w = setup_environment E w"
  by (simp add: setup_environment_def Let_def split: sum.splits)

lemma main_status:
  "main E a w =
     (case setup_environment E (emits [Banner, Equals] w) of
        (Some status, w1) \<Rightarrow> Some (status, w1)
      | (None, w1) \<Rightarrow>
          (case convert_model_to_mlx E (args_model a) (args_output a) (args_quantization a) w1 of
             None \<Rightarrow> None
           | Some (success, w2) \<Rightarrow>
               Some (if success then 0 else 1,
                 if success then
                   emits [CompletedSuccessfully, ReadyForIos (args_output a), NextSteps,
                          NextStep 1, NextStep 2, NextStep 3]
                     (if args_optimize_ios a then optimize_for_ios E (args_output a) w2 else w2)
                 else emit FailedBanner w2)))"
  by (simp add: main_def Let_def split: prod.splits option.splits)

lemma main_env:
  "map_option fst (main (E\<lparr>ext_load := l, ext_generate := g\<rparr>) a w) =
     map_option fst (main E a w)"
proof -
  obtain st w1 where s: "setup_environment E (emits [Banner, Equals] w) = (st, w1)"
    by (cases "setup_environment E (emits [Banner, Equals] w)")
  show ?thesis
  proof (cases st)
    case (Some status)
    with s show ?thesis by (simp add: main_status setup_environment_env)
  next
    case None
    note d = driver_env [where E = E and l = l and g = g and m = "args_model a"
        and d = "args_output a" and q = "args_quantization a" and w = w1, THEN conjunct1]
    show ?thesis
    proof (cases "convert_model_to_mlx E (args_model a) (args_output a) (args_quantization a) w1")
      case n: None
      with d have "convert_model_to_mlx (E\<lparr>ext_load := l, ext_generate := g\<rparr>)
          (args_model a) (args_output a) (args_quantization a) w1 = None"
        by simp
      with n s None show ?thesis by (simp add: main_status setup_environment_env)
    next
      case (Some r)
      with d obtain r' where r': "convert_model_to_mlx (E\<lparr>ext_load := l, ext_generate := g\<rparr>)
          (args_model a) (args_output a) (args_quantization a) w1 = Some r'" and "fst r' = fst r"
        by (cases "convert_model_to_mlx (E\<lparr>ext_load := l, ext_generate := g\<rparr>)
          (args_model a) (args_output a) (args_quantization a) w1") auto
      with Some s None show ?thesis
        by (cases r, cases r') (simp add: main_status setup_environment_env)
    qed
  qed
qed

lemma script_env:
  "map_option fst (script (E\<lparr>ext_load := l, ext_generate := g\<rparr>) argv w) =
     map_option fst (script E argv w)"
  using main_env [where E = E and l = l and g = g and w = w]
  by (simp add: script_def split: sum.splits)

text \<open>
  Claim C5, amended. The smoke test calls the loader once and then makes at most one
  generation call: exactly one when the loader returns, none when the loader raises. The
  generation call has the fixed prompt, a budget of 200 tokens and temperature 0.3. An
  exception of the loader or of the generator is caught and logged as a warning; the
  smoke test leaves the file system as it is, and whatever the loader and the generator
  do, the result of the driver and the exit status of the process are the same.
\<close>

theorem smoke_test_contained:
  "calls (test_model E p w) =
     calls w @ Load p #
       (if ext_load E p (fs w) = None then [Generate p test_prompt 200 (3 / 10)] else []) \<and>
   (\<forall>e. ext_load E p (fs w) = Some e \<longrightarrow>
      console (test_model E p w) = console w @ [LoadingForTest, TestFailed e]) \<and>
   (\<forall>e. ext_load E p (fs w) = None \<and>
        ext_generate E (Generate p test_prompt 200 (3 / 10)) (fs w) = Inl e \<longrightarrow>
      console (test_model E p w) =
        console w @ [LoadingForTest, GeneratingResponse, TestFailed e]) \<and>
   fs (test_model E p w) = fs w \<and>
   same_outcome (test_model E p w) w \<and>
   map_option fst (convert_model_to_mlx (E\<lparr>ext_load := l, ext_generate := g\<rparr>) m d q w) =
     map_option fst (convert_model_to_mlx E m d q w) \<and>
   map_option fst (script (E\<lparr>ext_load := l, ext_generate := g\<rparr>) argv w) =
     map_option fst (script E argv w)"
proof (intro conjI allI impI)
  show "calls (test_model E p w) =
     calls w @ Load p #
       (if ext_load E p (fs w) = None then [Generate p test_prompt 200 (3 / 10)] else [])"
    by (rule test_model_calls)
  show "console (test_model E p w) = console w @ [LoadingForTest, TestFailed e]"
    if "ext_load E p (fs w) = Some e" for e
    using that by (simp add: test_model_console)
  show "console (test_model E p w) =
      console w @ [LoadingForTest, GeneratingResponse, TestFailed e]"
    if "ext_load E p (fs w) = None \<and>
        ext_generate E (Generate p test_prompt 200 (3 / 10)) (fs w) = Inl e" for e
    using that by (simp add: test_model_console)
  show s: "same_outcome (test_model E p w) w" by (rule test_model_same)
  then show "fs (test_model E p w) = fs w" by (simp add: same_outcome_def)
  show "map_option fst (convert_model_to_mlx (E\<lparr>ext_load := l, ext_generate := g\<rparr>) m d q w) =
      map_option fst (convert_model_to_mlx E m d q w)"
    using driver_env [where E = E and l = l and g = g and m = m and d = d and q = q and w = w] by blast
  show "map_option fst (script (E\<lparr>ext_load := l, ext_generate := g\<rparr>) argv w) =
      map_option fst (script E argv w)"
    by (rule script_env)
qed

lemma parse_from_model:
  "args_model a \<in> set model_keys \<Longrightarrow> parse_from a argv = Inr a' \<Longrightarrow>
   args_model a' \<in> set model_keys"
  by (induction a argv rule: parse_from.induct) (auto split: if_splits)

lemma parse_args_model: "parse_args argv = Inr a \<Longrightarrow> args_model a \<in> set model_keys"
  unfolding parse_args_def
  by (rule parse_from_model [of default_args]) (simp_all add: default_args_def model_keys_eval)

lemma generate_model_info_succeeds:
  assumes "lookup_model m = Some config" "ext_write E (info_path p) 
      (model_info p m q (now E (clock_reads w)) (description config)) (fs w) = None"
  shows "fst (generate_model_info E p m q w) = None"
  using assms by (simp add: generate_model_info_def Let_def)

lemma convert_at_succeeds:
  assumes "fst (ext_convert E (convert_call hf out q) (fs w)) = None"
    and "lookup_model m = Some config"
    and "\<forall>p j f. ext_write E p j f = None"
  shows "fst (convert_at E m hf q out w) = True"
proof -
  let ?w3 = "test_model E out (emits [ConversionCompleted, TestingModel]
      (snd (run_convert E (convert_call hf out q)
         (emits [ActualOutput out, StartingConversion] w))))"
  from assms(2,3) have "fst (generate_model_info E out m q ?w3) = None"
    by (intro generate_model_info_succeeds) simp_all
  then obtain w4 where "generate_model_info E out m q ?w3 = (None, w4)"
    by (cases "generate_model_info E out m q ?w3") simp
  with assms(1) show ?thesis by (simp add: convert_at_converted)
qed

lemma successful_run:
  assumes "has_mlx E" "has_mlx_lm E" "has_numpy E"
    and "\<forall>c f. fst (ext_convert E c f) = None"
    and "\<forall>p j f. ext_write E p j f = None"
    and "fs w = Map.empty"
    and "parse_args argv = Inr a"
  shows "\<exists>w'. script E argv w = Some (0, w')"
proof -
  from parse_args_model [OF assms(7)] obtain config where
    c: "lookup_model (args_model a) = Some config"
    using lookup_model_keys [of "args_model a"] by auto
  obtain st w1 where s: "setup_environment E (emits [Banner, Equals] w) = (st, w1)"
    by (cases "setup_environment E (emits [Banner, Equals] w)")
  with setup_environment_status [of E "emits [Banner, Equals] w"] assms(1,2)
  have st: "st = None" by simp
  from s setup_environment_fields(1) [of E "emits [Banner, Equals] w"] assms(6)
  have f: "fs w1 = Map.empty" by (simp add: emits_fields)
  let ?w1 = "emits [Converting (description config), Source (hf_path config),
      Output (args_output a), Quantization (args_quantization a)] w1"
  from f have "fs ?w1 = Map.empty" by (simp add: emits_fields)
  note al = empty_fs_allocate [OF this, of "now E" "random_raw E" "args_output a"]
  let ?r = "convert_at E (args_model a) (hf_path config) (args_quantization a)
      (path_str (nth_candidate (now E) (random_raw E) (args_output a) ?w1 0))
      (advance (Suc 0) ?w1)"
  from assms(4,5) c have "fst ?r = True" by (intro convert_at_succeeds) simp_all
  then obtain w2 where "?r = (True, w2)" by (cases ?r) simp
  with al c have "convert_model_to_mlx E (args_model a) (args_output a)
      (args_quantization a) w1 = Some (True, w2)"
    by (simp add: convert_model_to_mlx_def Let_def)
  with s st assms show ?thesis by (simp add: script_def main_status)
qed

lemma good_env_fields:
  "has_mlx good_env" "has_mlx_lm good_env" "has_numpy good_env"
  "ext_convert good_env c f = (None, f(mlx_path c \<mapsto> Directory))"
  "ext_write good_env p j f = None"
  "ext_load good_env p f = None"
  "ext_generate good_env c f = Inr ''Category: food''"
  by (simp_all add: good_env_def)

theorem smoke_test_contained_witness:
  "ext_load load_fails_env ''out'' (fs empty_world) = Some (Raised ''no weights found'') \<and>
   console (test_model load_fails_env ''out'' empty_world) =
     [LoadingForTest, TestFailed (Raised ''no weights found'')] \<and>
   ext_load generate_fails_env ''out'' (fs empty_world) = None \<and>
   ext_generate generate_fails_env (Generate ''out'' test_prompt 200 (3 / 10)) (fs empty_world) =
     Inl (Raised ''unexpected keyword argument temp'') \<and>
   console (test_model generate_fails_env ''out'' empty_world) =
     [LoadingForTest, GeneratingResponse, TestFailed (Raised ''unexpected keyword argument temp'')] \<and>
   calls (test_model generate_fails_env ''out'' empty_world) =
     [Load ''out'', Generate ''out'' test_prompt 200 (3 / 10)] \<and>
   map_option fst (script good_env [] empty_world) = Some 0 \<and>
   map_option fst (script load_fails_env [] empty_world) = Some 0 \<and>
   map_option fst (script generate_fails_env [] empty_world) = Some 0"
proof -
  have l: "ext_load load_fails_env ''out'' (fs empty_world) = Some (Raised ''no weights found'')"
    by (simp add: load_fails_env_def)
  have g: "ext_load generate_fails_env ''out'' (fs empty_world) = None \<and>
      ext_generate generate_fails_env (Generate ''out'' test_prompt 200 (3 / 10)) (fs empty_world) =
        Inl (Raised ''unexpected keyword argument temp'')"
    by (simp add: generate_fails_env_def good_env_fields)
  note tl = smoke_test_contained [where E = load_fails_env and p = "''out''" and w = empty_world]
  note tg = smoke_test_contained [where E = generate_fails_env and p = "''out''" and w = empty_world]
  from tl l have 1: "console (test_model load_fails_env ''out'' empty_world) =
     [LoadingForTest, TestFailed (Raised ''no weights found'')]"
    by (simp add: empty_world_def)
  from tg g have 2: "console (test_model generate_fails_env ''out'' empty_world) =
     [LoadingForTest, GeneratingResponse, TestFailed (Raised ''unexpected keyword argument temp'')]"
    by (simp add: empty_world_def)
  from tg g have 3: "calls (test_model generate_fails_env ''out'' empty_world) =
     [Load ''out'', Generate ''out'' test_prompt 200 (3 / 10)]"
    by (simp add: empty_world_def)
  have "\<exists>w'. script good_env [] empty_world = Some (0, w')"
    by (rule successful_run [OF _ _ _ _ _ _ parse_no_args])
       (simp_all add: good_env_fields empty_world_def)
  then have 4: "map_option fst (script good_env [] empty_world) = Some 0" by auto
  have el: "good_env\<lparr>ext_load := (\<lambda>p f. Some (Raised ''no weights found'')),
      ext_generate := ext_generate good_env\<rparr> = load_fails_env"
    by (simp add: load_fails_env_def)
  have eg: "good_env\<lparr>ext_load := ext_load good_env,
      ext_generate := (\<lambda>c f. Inl (Raised ''unexpected keyword argument temp''))\<rparr> =
      generate_fails_env"
    by (simp add: generate_fails_env_def)
  from smoke_test_contained [where E = good_env and argv = "[]" and w = empty_world
      and l = "\<lambda>p f. Some (Raised ''no weights found'')" and g = "ext_generate good_env"] 4
  have 5: "map_option fst (script load_fails_env [] empty_world) = Some 0"
    by (simp only: el)
  from smoke_test_contained [where E = good_env and argv = "[]" and w = empty_world
      and g = "\<lambda>c f. Inl (Raised ''unexpected keyword argument temp'')" and l = "ext_load good_env"] 4
  have 6: "map_option fst (script generate_fails_env [] empty_world) = Some 0"
    by (simp only: eg)
  from l g 1 2 3 4 5 6 show ?thesis by blast
qed

text \<open>
  Claim C5 as stated fails on the number of generation calls: when the loader raises, the
  smoke test makes no generation call.
\<close>

theorem smoke_test_no_generation_counterexample:
  "calls (test_model load_fails_env ''out'' empty_world) = [Load ''out''] \<and>
   filter is_generate (calls (test_model load_fails_env ''out'' empty_world)) = []"
  by (simp add: test_model_calls load_fails_env_def empty_world_def)

subsection \<open>Writing the manifest twice\<close>

lemma model_info_other_fields:
  "k \<noteq> ''converted_at'' \<Longrightarrow>
   json_get (model_info p m q t d) k = json_get (model_info p m q t' d) k"
  by (simp add: model_info_def)

lemma model_info_converted_at:
  "json_get (model_info p m q t d) ''converted_at'' = Some (JString (isoformat t))"
  by (simp add: model_info_def)

lemma model_info_same_stamp:
  "isoformat t = isoformat t' \<Longrightarrow> model_info p m q t d = model_info p m q t' d"
  by (simp add: model_info_def)

text \<open>
  Claim C6, amended. Running manifest generation twice against the same path with the
  same model id and quantization level overwrites the file without merging: after each
  run the file holds the manifest of that run, and the rest of the file system is as
  before. The two manifests agree in every field but \<^verbatim>\<open>converted_at\<close>, which holds the clock
  reading of the run; when the two readings print the same, the second run leaves the
  file system exactly as the first did.
\<close>

theorem manifest_rewrite:
  assumes "generate_model_info E p m q w = (None, w1)"
    and "generate_model_info E p m q w1 = (None, w2)"
  shows "\<exists>config.
     lookup_model m = Some config \<and>
     fs w1 = (fs w)(info_path p \<mapsto>
       JsonFile (model_info p m q (now E (clock_reads w)) (description config))) \<and>
     fs w2 = (fs w)(info_path p \<mapsto>
       JsonFile (model_info p m q (now E (Suc (clock_reads w))) (description config))) \<and>
     json_get (model_info p m q (now E (clock_reads w)) (description config)) ''converted_at'' =
       Some (JString (isoformat (now E (clock_reads w)))) \<and>
     json_get (model_info p m q (now E (Suc (clock_reads w))) (description config)) ''converted_at'' =
       Some (JString (isoformat (now E (Suc (clock_reads w))))) \<and>
     (\<forall>k. k \<noteq> ''converted_at'' \<longrightarrow>
        json_get (model_info p m q (now E (clock_reads w)) (description config)) k =
        json_get (model_info p m q (now E (Suc (clock_reads w))) (description config)) k) \<and>
     (isoformat (now E (clock_reads w)) = isoformat (now E (Suc (clock_reads w))) \<longrightarrow>
        fs w2 = fs w1)"
proof -
  from generate_model_info_written [OF assms(1)] obtain config where
    "lookup_model m = Some config \<and>
     w1 = emit (ModelInfoSaved (info_path p))
            (w\<lparr>clock_reads := Suc (clock_reads w),
               fs := (fs w)(info_path p \<mapsto>
                 JsonFile (model_info p m q (now E (clock_reads w)) (description config)))\<rparr>)" ..
  then have c: "lookup_model m = Some config" and
    w1: "w1 = emit (ModelInfoSaved (info_path p))
            (w\<lparr>clock_reads := Suc (clock_reads w),
               fs := (fs w)(info_path p \<mapsto>
                 JsonFile (model_info p m q (now E (clock_reads w)) (description config)))\<rparr>)"
    by blast+
  from generate_model_info_written [OF assms(2)] obtain config' where
    "lookup_model m = Some config' \<and>
     w2 = emit (ModelInfoSaved (info_path p))
            (w1\<lparr>clock_reads := Suc (clock_reads w1),
               fs := (fs w1)(info_path p \<mapsto>
                 JsonFile (model_info p m q (now E (clock_reads w1)) (description config')))\<rparr>)" ..
  then have c': "lookup_model m = Some config'" and
    w2: "w2 = emit (ModelInfoSaved (info_path p))
            (w1\<lparr>clock_reads := Suc (clock_reads w1),
               fs := (fs w1)(info_path p \<mapsto>
                 JsonFile (model_info p m q (now E (clock_reads w1)) (description config')))\<rparr>)"
    by blast+
  from c c' have e: "config' = config" by simp
  have f1: "fs w1 = (fs w)(info_path p \<mapsto>
       JsonFile (model_info p m q (now E (clock_reads w)) (description config)))"
    and r1: "clock_reads w1 = Suc (clock_reads w)"
    by (simp_all add: w1 emit_def)
  have f2: "fs w2 = (fs w)(info_path p \<mapsto>
       JsonFile (model_info p m q (now E (Suc (clock_reads w))) (description config)))"
    unfolding w2 e by (simp add: emit_def f1 r1)
  have same: "fs w2 = fs w1"
    if "isoformat (now E (clock_reads w)) = isoformat (now E (Suc (clock_reads w)))"
    using model_info_same_stamp [OF that, of p m q "description config"] f1 f2 by simp
  have other: "json_get (model_info p m q (now E (clock_reads w)) (description config)) k =
        json_get (model_info p m q (now E (Suc (clock_reads w))) (description config)) k"
    if "k \<noteq> ''converted_at''" for k
    using that by (rule model_info_other_fields)
  from c f1 f2 same other show ?thesis
    by (intro exI [of _ config] conjI allI impI) (simp_all add: model_info_converted_at)
qed

lemma good_manifest_first:
  "generate_model_info good_env ''out'' ''deepseek-r1-8b'' ''q4'' empty_world =
     (None, snd (generate_model_info good_env ''out'' ''deepseek-r1-8b'' ''q4'' empty_world))"
  by (simp add: prod_eq_iff generate_model_info_succeeds [OF lookup_first_model] good_env_fields)

lemma good_manifest_second:
  "generate_model_info good_env ''out'' ''deepseek-r1-8b'' ''q4''
       (snd (generate_model_info good_env ''out'' ''deepseek-r1-8b'' ''q4'' empty_world)) =
     (None, snd (generate_model_info good_env ''out'' ''deepseek-r1-8b'' ''q4''
       (snd (generate_model_info good_env ''out'' ''deepseek-r1-8b'' ''q4'' empty_world))))"
  by (simp add: prod_eq_iff generate_model_info_succeeds [OF lookup_first_model] good_env_fields)

lemma isoformat_ticks:
  "isoformat (ticking_clock 0) = ''2025-01-01T00:00:00''"
  "isoformat (ticking_clock (Suc 0)) = ''2025-01-01T00:00:01''"
  by (simp_all add: isoformat_def ticking_clock_def zfill_def digits.simps)

lemma frozen_manifest_runs:
  "generate_model_info frozen_env ''out'' ''deepseek-r1-8b'' ''q4'' w =
     (None, snd (generate_model_info frozen_env ''out'' ''deepseek-r1-8b'' ''q4'' w))"
  by (simp add: prod_eq_iff generate_model_info_succeeds [OF lookup_first_model]
      frozen_env_def good_env_def)

theorem manifest_rewrite_witness:
  "generate_model_info good_env ''out'' ''deepseek-r1-8b'' ''q4'' empty_world =
     (None, snd (generate_model_info good_env ''out'' ''deepseek-r1-8b'' ''q4'' empty_world)) \<and>
   generate_model_info good_env ''out'' ''deepseek-r1-8b'' ''q4''
       (snd (generate_model_info good_env ''out'' ''deepseek-r1-8b'' ''q4'' empty_world)) =
     (None, snd (generate_model_info good_env ''out'' ''deepseek-r1-8b'' ''q4''
       (snd (generate_model_info good_env ''out'' ''deepseek-r1-8b'' ''q4'' empty_world)))) \<and>
   fs (snd (generate_model_info good_env ''out'' ''deepseek-r1-8b'' ''q4''
       (snd (generate_model_info good_env ''out'' ''deepseek-r1-8b'' ''q4'' empty_world)))) =
     [info_path ''out'' \<mapsto> JsonFile (model_info ''out'' ''deepseek-r1-8b'' ''q4'' (ticking_clock 1)
        ''DeepSeek R1 Distilled Llama 8B - optimized reasoning model'')] \<and>
   isoformat (now frozen_env (clock_reads empty_world)) =
     isoformat (now frozen_env (Suc (clock_reads empty_world))) \<and>
   fs (snd (generate_model_info frozen_env ''out'' ''deepseek-r1-8b'' ''q4''
       (snd (generate_model_info frozen_env ''out'' ''deepseek-r1-8b'' ''q4'' empty_world)))) =
   fs (snd (generate_model_info frozen_env ''out'' ''deepseek-r1-8b'' ''q4'' empty_world))"
proof -
  have s: "isoformat (now frozen_env (clock_reads empty_world)) =
     isoformat (now frozen_env (Suc (clock_reads empty_world)))"
    by (simp add: frozen_env_def frozen_clock_def)
  from manifest_rewrite [OF frozen_manifest_runs frozen_manifest_runs, of empty_world] s
  have z: "fs (snd (generate_model_info frozen_env ''out'' ''deepseek-r1-8b'' ''q4''
       (snd (generate_model_info frozen_env ''out'' ''deepseek-r1-8b'' ''q4'' empty_world)))) =
   fs (snd (generate_model_info frozen_env ''out'' ''deepseek-r1-8b'' ''q4'' empty_world))"
    by blast
  from manifest_rewrite [OF good_manifest_first good_manifest_second] lookup_first_model
  have "fs (snd (generate_model_info good_env ''out'' ''deepseek-r1-8b'' ''q4''
       (snd (generate_model_info good_env ''out'' ''deepseek-r1-8b'' ''q4'' empty_world)))) =
     (fs empty_world)(info_path ''out'' \<mapsto> JsonFile (model_info ''out'' ''deepseek-r1-8b'' ''q4''
        (now good_env (Suc (clock_reads empty_world)))
        ''DeepSeek R1 Distilled Llama 8B - optimized reasoning model''))"
    by auto
  then have "fs (snd (generate_model_info good_env ''out'' ''deepseek-r1-8b'' ''q4''
       (snd (generate_model_info good_env ''out'' ''deepseek-r1-8b'' ''q4'' empty_world)))) =
     [info_path ''out'' \<mapsto> JsonFile (model_info ''out'' ''deepseek-r1-8b'' ''q4'' (ticking_clock 1)
        ''DeepSeek R1 Distilled Llama 8B - optimized reasoning model'')]"
    by (simp add: empty_world_def good_env_def)
  with good_manifest_first good_manifest_second s z show ?thesis by blast
qed

text \<open>
  Claim C6 as stated fails: with a clock that advances between the two runs, the file
  written by the second run differs from the file written by the first.
\<close>

theorem manifest_timestamp_counterexample:
  "fst (generate_model_info good_env ''out'' ''deepseek-r1-8b'' ''q4'' empty_world) = None \<and>
   fst (generate_model_info good_env ''out'' ''deepseek-r1-8b'' ''q4''
       (snd (generate_model_info good_env ''out'' ''deepseek-r1-8b'' ''q4'' empty_world))) = None \<and>
   fs (snd (generate_model_info good_env ''out'' ''deepseek-r1-8b'' ''q4'' empty_world))
       (info_path ''out'') \<noteq>
   fs (snd (generate_model_info good_env ''out'' ''deepseek-r1-8b'' ''q4''
       (snd (generate_model_info good_env ''out'' ''deepseek-r1-8b'' ''q4'' empty_world))))
       (info_path ''out'')"
proof -
  obtain w1 where 1: "generate_model_info good_env ''out'' ''deepseek-r1-8b'' ''q4'' empty_world =
      (None, w1)"
    using good_manifest_first by blast
  obtain w2 where 2: "generate_model_info good_env ''out'' ''deepseek-r1-8b'' ''q4'' w1 = (None, w2)"
    using good_manifest_second 1 by simp
  from generate_model_info_written [OF 1] lookup_first_model
  have f1: "fs w1 (info_path ''out'') = Some (JsonFile (model_info ''out'' ''deepseek-r1-8b'' ''q4''
      (ticking_clock 0) ''DeepSeek R1 Distilled Llama 8B - optimized reasoning model''))"
    and r1: "clock_reads w1 = Suc 0"
    by (auto simp: emit_def empty_world_def good_env_def)
  from generate_model_info_written [OF 2] lookup_first_model r1
  have f2: "fs w2 (info_path ''out'') = Some (JsonFile (model_info ''out'' ''deepseek-r1-8b'' ''q4''
      (ticking_clock (Suc 0)) ''DeepSeek R1 Distilled Llama 8B - optimized reasoning model''))"
    by (auto simp: emit_def good_env_def)
  have "model_info ''out'' ''deepseek-r1-8b'' ''q4'' (ticking_clock 0) d \<noteq>
      model_info ''out'' ''deepseek-r1-8b'' ''q4'' (ticking_clock (Suc 0)) d" for d
    by (simp add: model_info_def isoformat_ticks)
  with 1 2 f1 f2 show ?thesis by simp
qed

subsection \<open>The exit status\<close>

lemma main_with_runtime:
  assumes "has_mlx E" "has_mlx_lm E"
  shows "main E a w =
     (case conversion_result E a w of
        None \<Rightarrow> None
      | Some (success, w2) \<Rightarrow>
          Some (if success then 0 else 1,
            if success then
              emits [CompletedSuccessfully, ReadyForIos (args_output a), NextSteps,
                     NextStep 1, NextStep 2, NextStep 3]
                (if args_optimize_ios a then optimize_for_ios E (args_output a) w2 else w2)
            else emit FailedBanner w2))"
proof -
  obtain st w1 where s: "setup_environment E (emits [Banner, Equals] w) = (st, w1)"
    by (cases "setup_environment E (emits [Banner, Equals] w)")
  with setup_environment_status [of E "emits [Banner, Equals] w"] assms
  have "st = None" by simp
  with s show ?thesis
    by (simp add: main_status conversion_result_def after_setup_def)
qed

lemma main_without_runtime:
  assumes "\<not> (has_mlx E \<and> has_mlx_lm E)"
  shows "\<exists>w'. main E a w = Some (1, w') \<and> calls w' = calls w \<and> fs w' = fs w"
proof -
  obtain st w1 where s: "setup_environment E (emits [Banner, Equals] w) = (st, w1)"
    by (cases "setup_environment E (emits [Banner, Equals] w)")
  with setup_environment_status [of E "emits [Banner, Equals] w"] assms
  have st: "st = Some 1" by auto
  from s setup_environment_fields [of E "emits [Banner, Equals] w"]
  have "fs w1 = fs w" "calls w1 = calls w" by (simp_all add: emits_fields)
  with s st show ?thesis by (simp add: main_status)
qed

lemma script_without_imports:
  assumes "\<not> imports_ok E"
  shows "\<exists>w'. script E argv w = Some (1, w') \<and> calls w' = calls w \<and> fs w' = fs w"
  using assms by (auto simp: script_def imports_ok_def emit_fields)

lemma script_with_imports:
  assumes "imports_ok E"
  shows "script E argv w =
    (case parse_args argv of
       Inl (status, msg) \<Rightarrow> Some (status, emit msg w)
     | Inr a \<Rightarrow> main E a w)"
  using assms by (simp add: script_def imports_ok_def)

lemma parse_from_exit:
  "parse_from a argv = Inl (st, msg) \<Longrightarrow>
   st = 0 \<and> msg = HelpText \<or> st = 2 \<and> (\<exists>opt v choices. msg = InvalidChoice opt v choices)"
  by (induction a argv rule: parse_from.induct) (auto split: if_splits)

lemma main_status_zero:
  assumes "main E a w = Some (status, w')"
  shows "(status = 0) =
    (has_mlx E \<and> has_mlx_lm E \<and> (\<exists>w2. conversion_result E a w = Some (True, w2)))"
proof (cases "has_mlx E \<and> has_mlx_lm E")
  case False
  from main_without_runtime [OF this, of a w] assms False show ?thesis by auto
next
  case True
  then have rt: "has_mlx E" "has_mlx_lm E" by simp_all
  from assms obtain ok w2 where c: "conversion_result E a w = Some (ok, w2)"
    by (cases "conversion_result E a w") (auto simp: main_with_runtime [OF rt])
  with assms have "status = (if ok then 0 else 1)"
    by (simp add: main_with_runtime [OF rt])
  with c True show ?thesis by auto
qed

text \<open>
  Claim C8, amended. The exit status of the process is 0 exactly when the conversion
  succeeds, that is when the driver returns \<^verbatim>\<open>True\<close>, or when the command line asks for
  help: the help option, consumed before any value is rejected, ends the process with
  status 0 and no external call. Once the arguments are parsed, \<^verbatim>\<open>main\<close> ends with status 0
  exactly when the conversion succeeds. The status is 1 when the driver returns \<^verbatim>\<open>False\<close>,
  and 1 when the runtime is missing, in which case the process ends before any external
  call and any change of the file system (both at the imports of the script and in
  \<^verbatim>\<open>setup_environment\<close>). The only other status is 2, when \<^verbatim>\<open>argparse\<close> rejects a value. What
  the loader and the generator do, in the smoke test and in the iOS step, does not change
  the status.
\<close>

theorem exit_status:
  "(script E argv w = Some (status, w') \<longrightarrow>
      (status = 0) =
        (imports_ok E \<and>
         (parse_args argv = Inl (0, HelpText) \<or>
          (\<exists>a w2. parse_args argv = Inr a \<and> conversion_result E a w = Some (True, w2))))) \<and>
   (main E a w = Some (status, w') \<longrightarrow>
      (status = 0) =
        (has_mlx E \<and> has_mlx_lm E \<and> (\<exists>w2. conversion_result E a w = Some (True, w2)))) \<and>
   (imports_ok E \<and> parse_args pre = Inr a \<longrightarrow>
      script E (pre @ HelpArg # rest) w = Some (0, emit HelpText w) \<and>
      calls (emit HelpText w) = calls w \<and> fs (emit HelpText w) = fs w) \<and>
   (imports_ok E \<and> parse_args argv = Inl (st, msg) \<longrightarrow>
      script E argv w = Some (st, emit msg w) \<and>
      (st = 0 \<and> msg = HelpText \<or>
       st = 2 \<and> (\<exists>opt v choices. msg = InvalidChoice opt v choices))) \<and>
   (imports_ok E \<and> parse_args argv = Inr a \<and> conversion_result E a w = Some (False, w2) \<longrightarrow>
      (\<exists>w'. script E argv w = Some (1, w'))) \<and>
   (imports_ok E \<and> parse_args argv = Inr a \<and> conversion_result E a w = Some (True, w2) \<longrightarrow>
      (\<exists>w'. script E argv w = Some (0, w'))) \<and>
   (\<not> imports_ok E \<longrightarrow>
      (\<exists>w'. script E argv w = Some (1, w') \<and> calls w' = calls w \<and> fs w' = fs w)) \<and>
   (\<not> (has_mlx E \<and> has_mlx_lm E) \<longrightarrow>
      (\<exists>w'. main E a w = Some (1, w') \<and> calls w' = calls w \<and> fs w' = fs w)) \<and>
   map_option fst (script (E\<lparr>ext_load := l, ext_generate := g\<rparr>) argv w) =
     map_option fst (script E argv w)"
proof (intro conjI impI)
  assume r: "script E argv w = Some (status, w')"
  show "(status = 0) =
        (imports_ok E \<and>
         (parse_args argv = Inl (0, HelpText) \<or>
          (\<exists>a w2. parse_args argv = Inr a \<and> conversion_result E a w = Some (True, w2))))"
  proof (cases "imports_ok E")
    case False
    from script_without_imports [OF this, of argv w] r False show ?thesis by auto
  next
    case True
    then have rt: "has_mlx E" "has_mlx_lm E" by (simp_all add: imports_ok_def)
    show ?thesis
    proof (cases "parse_args argv")
      case (Inl e)
      obtain st msg where e: "e = (st, msg)" by (cases e)
      with Inl have "parse_from default_args argv = Inl (st, msg)" by (simp add: parse_args_def)
      from parse_from_exit [OF this] Inl e True r show ?thesis
        by (auto simp: script_with_imports)
    next
      case (Inr a)
      with True r have m: "main E a w = Some (status, w')" by (simp add: script_with_imports)
      from main_status_zero [OF m] rt Inr True show ?thesis by simp
    qed
  qed
next
  assume "main E a w = Some (status, w')"
  then show "(status = 0) =
      (has_mlx E \<and> has_mlx_lm E \<and> (\<exists>w2. conversion_result E a w = Some (True, w2)))"
    by (rule main_status_zero)
next
  assume h: "imports_ok E \<and> parse_args pre = Inr a"
  then have "parse_args (pre @ HelpArg # rest) = Inl (0, HelpText)"
    by (simp add: parse_args_def parse_from_help)
  with h show "script E (pre @ HelpArg # rest) w = Some (0, emit HelpText w)"
    by (simp add: script_with_imports)
  show "calls (emit HelpText w) = calls w" "fs (emit HelpText w) = fs w"
    by (simp_all add: emit_fields)
next
  assume h: "imports_ok E \<and> parse_args argv = Inl (st, msg)"
  then show "script E argv w = Some (st, emit msg w)" by (simp add: script_with_imports)
  from h have "parse_from default_args argv = Inl (st, msg)" by (simp add: parse_args_def)
  then show "st = 0 \<and> msg = HelpText \<or>
      st = 2 \<and> (\<exists>opt v choices. msg = InvalidChoice opt v choices)"
    by (rule parse_from_exit)
next
  assume "imports_ok E \<and> parse_args argv = Inr a \<and> conversion_result E a w = Some (False, w2)"
  then show "\<exists>w'. script E argv w = Some (1, w')"
    by (simp add: script_with_imports main_with_runtime imports_ok_def)
next
  assume "imports_ok E \<and> parse_args argv = Inr a \<and> conversion_result E a w = Some (True, w2)"
  then show "\<exists>w'. script E argv w = Some (0, w')"
    by (simp add: script_with_imports main_with_runtime imports_ok_def)
next
  assume "\<not> imports_ok E"
  then show "\<exists>w'. script E argv w = Some (1, w') \<and> calls w' = calls w \<and> fs w' = fs w"
    by (rule script_without_imports)
next
  assume "\<not> (has_mlx E \<and> has_mlx_lm E)"
  then show "\<exists>w'. main E a w = Some (1, w') \<and> calls w' = calls w \<and> fs w' = fs w"
    by (rule main_without_runtime)
next
  show "map_option fst (script (E\<lparr>ext_load := l, ext_generate := g\<rparr>) argv w) =
     map_option fst (script E argv w)"
    by (rule script_env)
qed

lemma conversion_result_empty_fs:
  assumes "fs w = Map.empty" "lookup_model (args_model a) = Some config"
  shows "\<exists>out w1. conversion_result E a w =
      Some (convert_at E (args_model a) (hf_path config) (args_quantization a) out w1) \<and>
      fs w1 = Map.empty"
proof -
  let ?w1 = "emits [Converting (description config), Source (hf_path config),
      Output (args_output a), Quantization (args_quantization a)] (after_setup E w)"
  from assms(1) have f: "fs ?w1 = Map.empty"
    by (simp add: emits_fields after_setup_def setup_environment_fields)
  from empty_fs_allocate [OF f, of "now E" "random_raw E" "args_output a"] assms(2)
  have "conversion_result E a w =
      Some (convert_at E (args_model a) (hf_path config) (args_quantization a)
        (path_str (nth_candidate (now E) (random_raw E) (args_output a) ?w1 0))
        (advance (Suc 0) ?w1))"
    by (simp add: conversion_result_def convert_model_to_mlx_def Let_def)
  moreover from f have "fs (advance (Suc 0) ?w1) = Map.empty" by (simp add: advance_fields)
  ultimately show ?thesis by blast
qed

lemma default_model: "lookup_model (args_model default_args) =
     Some \<lparr>hf_path = ''deepseek-ai/DeepSeek-R1-Distill-Llama-8B'',
           description = ''DeepSeek R1 Distilled Llama 8B - optimized reasoning model''\<rparr>"
  by (simp add: default_args_def lookup_first_model)

lemma empty_world_fs: "fs empty_world = Map.empty" "calls empty_world = []"
  by (simp_all add: empty_world_def)

lemma good_conversion:
  "\<exists>w2. conversion_result good_env default_args empty_world = Some (True, w2)"
proof -
  from conversion_result_empty_fs [OF empty_world_fs(1) default_model, of good_env]
  obtain out w1 where r: "conversion_result good_env default_args empty_world =
      Some (convert_at good_env (args_model default_args)
        ''deepseek-ai/DeepSeek-R1-Distill-Llama-8B'' (args_quantization default_args) out w1)"
    by auto
  have "fst (convert_at good_env (args_model default_args)
        ''deepseek-ai/DeepSeek-R1-Distill-Llama-8B'' (args_quantization default_args) out w1) = True"
    by (rule convert_at_succeeds [OF _ default_model]) (simp_all add: good_env_fields)
  with r show ?thesis by (simp add: prod_eq_iff)
qed

lemma failed_conversion:
  "\<exists>w2. conversion_result convert_fails_env default_args empty_world = Some (False, w2)"
proof -
  from conversion_result_empty_fs [OF empty_world_fs(1) default_model, of convert_fails_env]
  obtain out w1 where r: "conversion_result convert_fails_env default_args empty_world =
      Some (convert_at convert_fails_env (args_model default_args)
        ''deepseek-ai/DeepSeek-R1-Distill-Llama-8B'' (args_quantization default_args) out w1)"
    by auto
  have "fst (ext_convert convert_fails_env
      (convert_call ''deepseek-ai/DeepSeek-R1-Distill-Llama-8B'' out (args_quantization default_args))
      (fs w1)) = Some (Raised ''download failed'')"
    by (simp add: convert_fails_env_def)
  from convert_at_failed [OF this] r show ?thesis by simp
qed

theorem exit_status_witness:
  "imports_ok good_env \<and> parse_args [] = Inr default_args \<and>
   (\<exists>w2. conversion_result good_env default_args empty_world = Some (True, w2)) \<and>
   (\<exists>w'. script good_env [] empty_world = Some (0, w')) \<and>
   imports_ok convert_fails_env \<and>
   (\<exists>w2. conversion_result convert_fails_env default_args empty_world = Some (False, w2)) \<and>
   (\<exists>w'. script convert_fails_env [] empty_world = Some (1, w')) \<and>
   \<not> imports_ok no_runtime_env \<and>
   (\<exists>w'. script no_runtime_env [] empty_world = Some (1, w') \<and> calls w' = [] \<and>
      fs w' = Map.empty) \<and>
   script good_env ([] @ HelpArg # [QuantizationArg ''q2'']) empty_world =
     Some (0, emit HelpText empty_world) \<and>
   parse_args [QuantizationArg ''q2''] =
     Inl (2, InvalidChoice ''--quantization'' ''q2'' [''q4'', ''q8'', ''none'']) \<and>
   script good_env [QuantizationArg ''q2''] empty_world =
     Some (2, emit (InvalidChoice ''--quantization'' ''q2'' [''q4'', ''q8'', ''none'']) empty_world)"
proof -
  have g: "imports_ok good_env" and c: "imports_ok convert_fails_env"
    and n: "\<not> imports_ok no_runtime_env"
    by (simp_all add: imports_ok_def good_env_def convert_fails_env_def no_runtime_env_def)
  from good_conversion obtain w2 where
    gc: "conversion_result good_env default_args empty_world = Some (True, w2)" by blast
  from failed_conversion obtain v2 where
    fc: "conversion_result convert_fails_env default_args empty_world = Some (False, v2)" by blast
  have q2: "parse_args [QuantizationArg ''q2''] =
     Inl (2, InvalidChoice ''--quantization'' ''q2'' [''q4'', ''q8'', ''none''])"
    by (simp add: parse_args_def quantization_choices_def)
  note c2 = conjunct2
  from exit_status [where E = good_env and argv = "[]" and w = empty_world
      and a = default_args and ?w2.0 = w2,
      THEN c2, THEN c2, THEN c2, THEN c2, THEN c2, THEN conjunct1] g gc parse_no_args
  have 1: "\<exists>w'. script good_env [] empty_world = Some (0, w')" by simp
  from exit_status [where E = convert_fails_env and argv = "[]" and w = empty_world
      and a = default_args and ?w2.0 = v2,
      THEN c2, THEN c2, THEN c2, THEN c2, THEN conjunct1] c fc parse_no_args
  have 2: "\<exists>w'. script convert_fails_env [] empty_world = Some (1, w')" by simp
  from exit_status [where E = no_runtime_env and argv = "[]" and w = empty_world,
      THEN c2, THEN c2, THEN c2, THEN c2, THEN c2, THEN c2, THEN conjunct1] n
  have 3: "\<exists>w'. script no_runtime_env [] empty_world = Some (1, w') \<and> calls w' = [] \<and>
      fs w' = Map.empty"
    by (simp add: empty_world_fs)
  from exit_status [where E = good_env and pre = "[]" and a = default_args
      and rest = "[QuantizationArg ''q2'']" and w = empty_world,
      THEN c2, THEN c2, THEN conjunct1] g parse_no_args
  have 4: "script good_env ([] @ HelpArg # [QuantizationArg ''q2'']) empty_world =
     Some (0, emit HelpText empty_world)"
    by simp
  from exit_status [where E = good_env and argv = "[QuantizationArg ''q2'']" and w = empty_world
      and st = 2 and msg = "InvalidChoice ''--quantization'' ''q2'' [''q4'', ''q8'', ''none'']",
      THEN c2, THEN c2, THEN c2, THEN conjunct1] g q2
  have 5: "script good_env [QuantizationArg ''q2''] empty_world =
     Some (2, emit (InvalidChoice ''--quantization'' ''q2'' [''q4'', ''q8'', ''none'']) empty_world)"
    by simp
  from g c n gc fc 1 2 3 4 5 q2 parse_no_args show ?thesis by (intro conjI) blast+
qed

text \<open>
  Claim C8 as stated fails on a help request: \<^verbatim>\<open>--help\<close> ends the process with status 0
  although no conversion has run (there is no external call, and the command line gives
  no arguments to convert with).
\<close>

theorem help_exit_status_counterexample:
  "script good_env [HelpArg] empty_world = Some (0, emit HelpText empty_world) \<and>
   calls (emit HelpText empty_world) = [] \<and>
   fs (emit HelpText empty_world) = Map.empty \<and>
   parse_args [HelpArg] = Inl (0, HelpText)"
  by (simp add: script_def parse_args_def good_env_def emit_fields empty_world_def)

subsection \<open>The iOS step and the manifest\<close>

lemma convert_at_true:
  assumes "convert_at E m hf q out w = (True, w')"
  shows "fst (ext_convert E (convert_call hf out q) (fs w)) = None \<and>
    (\<exists>w3. generate_model_info E out m q w3 = (None, w') \<and>
       calls w3 = calls w @ convert_call hf out q # Load out #
         (if ext_load E out (snd (ext_convert E (convert_call hf out q) (fs w))) = None
          then [Generate out test_prompt 200 (3 / 10)] else []))"
proof (cases "fst (ext_convert E (convert_call hf out q) (fs w))")
  case (Some e)
  from convert_at_failed [OF this] assms show ?thesis by simp
next
  case None
  let ?w3 = "test_model E out (emits [ConversionCompleted, TestingModel]
      (snd (run_convert E (convert_call hf out q)
         (emits [ActualOutput out, StartingConversion] w))))"
  obtain r w4 where g: "generate_model_info E out m q ?w3 = (r, w4)"
    by (cases "generate_model_info E out m q ?w3")
  with convert_at_converted [OF None, of m] assms have "r = None" "w4 = w'"
    by (cases r; simp)+
  with g have "generate_model_info E out m q ?w3 = (None, w')" by simp
  moreover have "calls ?w3 = calls w @ convert_call hf out q # Load out #
         (if ext_load E out (snd (ext_convert E (convert_call hf out q) (fs w))) = None
          then [Generate out test_prompt 200 (3 / 10)] else [])"
    by (simp add: test_model_calls emits_fields run_convert_fields)
  ultimately show ?thesis using None by blast
qed

lemma driver_true:
  assumes "convert_model_to_mlx E m d q w = Some (True, w')"
  shows "\<exists>config p t rest.
     lookup_model m = Some config \<and>
     (\<exists>k. p = nth_candidate (now E) (random_raw E) d w k) \<and>
     path_str p \<noteq> d \<and> p \<noteq> Path d \<and> Path (path_str p) = p \<and>
     calls w' = calls w @ convert_call (hf_path config) (path_str p) q # Load (path_str p) # rest \<and>
     (rest = [] \<or> rest = [Generate (path_str p) test_prompt 200 (3 / 10)]) \<and>
     fs w' (info_path (path_str p)) =
       Some (JsonFile (model_info (path_str p) m q t (description config)))"
proof -
  from assms obtain config where c: "lookup_model m = Some config"
    by (cases "lookup_model m") (auto simp: convert_model_to_mlx_def)
  let ?w1 = "emits [Converting (description config), Source (hf_path config), Output d,
          Quantization q] w"
  from driver_result [OF c assms] obtain p w2 where
    a: "allocate_output_path (now E) (random_raw E) d ?w1 = Some (p, w2)" and
    r: "convert_at E m (hf_path config) q (path_str p) w2 = (True, w')"
    by auto
  from allocate_result [OF a] obtain k where
    p: "p = nth_candidate (now E) (random_raw E) d ?w1 k" and w2: "w2 = advance (Suc k) ?w1"
    by blast
  have p': "p = nth_candidate (now E) (random_raw E) d w k"
    using p by (simp add: nth_candidate_def draw_def emits_fields)
  then have pc: "p = candidate (Path d) (draw (now E) (random_raw E) w k)"
    by (simp add: nth_candidate_def)
  note ns = no_sep_draw [of "now E" "random_raw E" w k]
  have n1: "path_str p \<noteq> d" unfolding pc using ns by (rule candidate_str_neq)
  have n2: "p \<noteq> Path d" unfolding pc using wf_Path ns by (rule candidate_neq_base)
  have "wf_path p" unfolding pc using wf_Path ns by (rule wf_candidate)
  then have rt: "Path (path_str p) = p" by (rule Path_path_str)
  have cw2: "calls w2 = calls w" by (simp add: w2 advance_fields emits_fields)
  from convert_at_true [OF r] obtain w3 where
    g: "generate_model_info E (path_str p) m q w3 = (None, w')" and
    c3: "calls w3 = calls w2 @ convert_call (hf_path config) (path_str p) q # Load (path_str p) #
         (if ext_load E (path_str p)
               (snd (ext_convert E (convert_call (hf_path config) (path_str p) q) (fs w2))) = None
          then [Generate (path_str p) test_prompt 200 (3 / 10)] else [])"
    by blast
  from generate_model_info_calls [of E "path_str p" m q w3] g have "calls w' = calls w3" by simp
  with c3 cw2 have cs: "\<exists>rest. calls w' = calls w @ convert_call (hf_path config) (path_str p) q #
      Load (path_str p) # rest \<and>
      (rest = [] \<or> rest = [Generate (path_str p) test_prompt 200 (3 / 10)])"
    by simp
  from generate_model_info_written [OF g] c
  have "\<exists>t. fs w' (info_path (path_str p)) =
       Some (JsonFile (model_info (path_str p) m q t (description config)))"
    by (auto simp: emit_def)
  with c p' n1 n2 rt cs show ?thesis by blast
qed

lemma main_zero:
  assumes "main E a w = Some (0, w')"
  shows "\<exists>w2. convert_model_to_mlx E (args_model a) (args_output a) (args_quantization a)
        (after_setup E w) = Some (True, w2) \<and>
      w' = emits [CompletedSuccessfully, ReadyForIos (args_output a), NextSteps,
                     NextStep 1, NextStep 2, NextStep 3]
             (if args_optimize_ios a then optimize_for_ios E (args_output a) w2 else w2)"
proof (cases "has_mlx E \<and> has_mlx_lm E")
  case False
  from main_without_runtime [OF this, of a w] assms show ?thesis by auto
next
  case True
  then have rt: "has_mlx E" "has_mlx_lm E" by simp_all
  from assms obtain ok w2 where c: "conversion_result E a w = Some (ok, w2)"
    by (cases "conversion_result E a w") (auto simp: main_with_runtime [OF rt])
  with assms have "ok" by (cases ok) (simp_all add: main_with_runtime [OF rt])
  with c assms show ?thesis
    by (simp add: main_with_runtime [OF rt] conversion_result_def)
qed

text \<open>
  Claim C9. When \<^verbatim>\<open>--optimize-ios\<close> is given and the conversion succeeds, the iOS step is
  called with \<^verbatim>\<open>args.output\<close>, the base output directory of the user: its \<^verbatim>\<open>load\<close> is the last
  external call of the run. The converter wrote to the allocated path, where the manifest
  is; that path differs from the base, as text and as a path, so the iOS step never
  loads the converted artifact.
\<close>

theorem ios_step_on_base_path:
  assumes "main E a w = Some (0, w')" and "args_optimize_ios a"
  shows "\<exists>config p rest.
     lookup_model (args_model a) = Some config \<and>
     calls w' = calls w @
       convert_call (hf_path config) (path_str p) (args_quantization a) #
       Load (path_str p) # rest @ [Load (args_output a)] \<and>
     (rest = [] \<or> rest = [Generate (path_str p) test_prompt 200 (3 / 10)]) \<and>
     path_str p \<noteq> args_output a \<and>
     Path (path_str p) \<noteq> Path (args_output a) \<and>
     Load (path_str p) \<noteq> Load (args_output a) \<and>
     fs w' (info_path (path_str p)) \<noteq> None"
proof -
  from main_zero [OF assms(1)] assms(2) obtain w2 where
    d: "convert_model_to_mlx E (args_model a) (args_output a) (args_quantization a)
        (after_setup E w) = Some (True, w2)" and
    w': "w' = emits [CompletedSuccessfully, ReadyForIos (args_output a), NextSteps,
                     NextStep 1, NextStep 2, NextStep 3]
             (optimize_for_ios E (args_output a) w2)"
    by auto
  from driver_true [OF d] obtain config p t rest where
    c: "lookup_model (args_model a) = Some config" and
    n: "path_str p \<noteq> args_output a" "p \<noteq> Path (args_output a)" "Path (path_str p) = p" and
    cs: "calls w2 = calls (after_setup E w) @
      convert_call (hf_path config) (path_str p) (args_quantization a) # Load (path_str p) # rest"
      "rest = [] \<or> rest = [Generate (path_str p) test_prompt 200 (3 / 10)]" and
    f: "fs w2 (info_path (path_str p)) =
       Some (JsonFile (model_info (path_str p) (args_model a) (args_quantization a) t
         (description config)))"
    by blast
  have "calls (after_setup E w) = calls w"
    by (simp add: after_setup_def setup_environment_fields emits_fields)
  with cs have 1: "calls w' = calls w @
       convert_call (hf_path config) (path_str p) (args_quantization a) #
       Load (path_str p) # rest @ [Load (args_output a)]"
    by (simp add: w' emits_fields optimize_for_ios_calls)
  from optimize_for_ios_same [of E "args_output a" w2]
  have "fs w' = fs w2" by (simp add: w' emits_fields same_outcome_def)
  with f have 2: "fs w' (info_path (path_str p)) \<noteq> None" by simp
  from c 1 2 n cs(2) show ?thesis
    by (intro exI [of _ config] exI [of _ p] exI [of _ rest]) simp
qed

lemma ios_args: "parse_args [OptimizeIosArg] = Inr (default_args\<lparr>args_optimize_ios := True\<rparr>)"
  by (simp add: parse_args_def)

lemma good_ios_run:
  "\<exists>w'. main good_env (default_args\<lparr>args_optimize_ios := True\<rparr>) empty_world = Some (0, w')"
proof -
  have "\<exists>w'. script good_env [OptimizeIosArg] empty_world = Some (0, w')"
    by (rule successful_run [OF _ _ _ _ _ _ ios_args])
       (simp_all add: good_env_fields empty_world_def)
  then show ?thesis
    by (simp add: script_def good_env_fields ios_args)
qed

theorem ios_step_on_base_path_witness:
  "args_optimize_ios (default_args\<lparr>args_optimize_ios := True\<rparr>) \<and>
   (\<exists>w' p rest.
      main good_env (default_args\<lparr>args_optimize_ios := True\<rparr>) empty_world = Some (0, w') \<and>
      calls w' =
        Convert ''deepseek-ai/DeepSeek-R1-Distill-Llama-8B'' (path_str p) True (Some 4) (Some 64) #
        Load (path_str p) # rest @ [Load ''./models/deepseek-r1-8b-mlx''] \<and>
      path_str p \<noteq> ''./models/deepseek-r1-8b-mlx'' \<and>
      fs w' (info_path (path_str p)) \<noteq> None)"
proof -
  from good_ios_run obtain w' where
    r: "main good_env (default_args\<lparr>args_optimize_ios := True\<rparr>) empty_world = Some (0, w')"
    by blast
  have o: "args_optimize_ios (default_args\<lparr>args_optimize_ios := True\<rparr>)" by simp
  from ios_step_on_base_path [OF r o] obtain config p rest where
    c: "lookup_model (args_model (default_args\<lparr>args_optimize_ios := True\<rparr>)) = Some config" and
    cs: "calls w' = calls empty_world @
       convert_call (hf_path config) (path_str p)
         (args_quantization (default_args\<lparr>args_optimize_ios := True\<rparr>)) #
       Load (path_str p) # rest @ [Load (args_output (default_args\<lparr>args_optimize_ios := True\<rparr>))]" and
    n: "path_str p \<noteq> args_output (default_args\<lparr>args_optimize_ios := True\<rparr>)" and
    f: "fs w' (info_path (path_str p)) \<noteq> None"
    by blast
  from c have "config = \<lparr>hf_path = ''deepseek-ai/DeepSeek-R1-Distill-Llama-8B'',
           description = ''DeepSeek R1 Distilled Llama 8B - optimized reasoning model''\<rparr>"
    by (simp add: default_args_def lookup_first_model)
  with cs have "calls w' =
        Convert ''deepseek-ai/DeepSeek-R1-Distill-Llama-8B'' (path_str p) True (Some 4) (Some 64) #
        Load (path_str p) # rest @ [Load ''./models/deepseek-r1-8b-mlx'']"
    by (simp add: default_args_def convert_call_def empty_world_fs)
  moreover from n have "path_str p \<noteq> ''./models/deepseek-r1-8b-mlx''"
    by (simp add: default_args_def)
  ultimately show ?thesis using r f o by blast
qed










end
